theory Spec2Isabelle
  imports Complex_Main "HOL-Library.Multiset"
begin

section \<open>JavaScript values used by the forms\<close>

text \<open>
  A JavaScript string is its sequence of UTF-16 code units. Literals of the source are
  written \<open>js ''...''\<close>.
\<close>

type_synonym jsstring = "nat list"

definition js :: "string \<Rightarrow> jsstring" where
  "js s = map of_char s"

text \<open>
  White space and line terminators of ECMAScript, as stripped by \<open>String.prototype.trim\<close>
  and skipped at the start of the argument of \<open>parseInt\<close> and \<open>parseFloat\<close>:
  TAB, LF, VT, FF, CR, SP, NBSP, U+1680, U+2000..U+200A, U+2028, U+2029, U+202F, U+205F,
  U+3000, U+FEFF.
\<close>

definition StrWhiteSpaceChar :: "nat \<Rightarrow> bool" where
  "StrWhiteSpaceChar c \<longleftrightarrow>
     c \<in> set [9, 10, 11, 12, 13, 32, 160, 5760, 8232, 8233, 8239, 8287, 12288, 65279]
     \<or> (8192 \<le> c \<and> c \<le> 8202)"

definition trim :: "jsstring \<Rightarrow> jsstring" where
  "trim s = rev (dropWhile StrWhiteSpaceChar (rev (dropWhile StrWhiteSpaceChar s)))"

text \<open>The value of a code unit as a digit: \<open>0-9\<close>, then \<open>a-z\<close> or \<open>A-Z\<close> for 10 to 35.\<close>

definition digit_value :: "nat \<Rightarrow> nat option" where
  "digit_value c =
     (if 48 \<le> c \<and> c \<le> 57 then Some (c - 48)
      else if 97 \<le> c \<and> c \<le> 122 then Some (c - 87)
      else if 65 \<le> c \<and> c \<le> 90 then Some (c - 55)
      else None)"

definition is_radix_digit :: "nat \<Rightarrow> nat \<Rightarrow> bool" where
  "is_radix_digit R c = (case digit_value c of Some d \<Rightarrow> d < R | None \<Rightarrow> False)"

definition radix_value :: "nat \<Rightarrow> jsstring \<Rightarrow> nat" where
  "radix_value R Z = foldl (\<lambda>a c. a * R + the (digit_value c)) 0 Z"

text \<open>
  \<open>parseInt(string)\<close> with no radix: leading white space is skipped, a sign is read, the
  prefix \<open>0x\<close> or \<open>0X\<close> selects radix 16, and the longest run of digits is the value; what
  follows the digits is ignored. \<open>None\<close> is \<open>NaN\<close> (no digit was found). The value is
  kept as the mathematical integer: the source only compares it with 5 and 120, and
  the rounding of a long digit string to a Number does not change those comparisons.
\<close>

definition parseInt :: "jsstring \<Rightarrow> int option" where
  "parseInt inputString =
     (let S = dropWhile StrWhiteSpaceChar inputString;
          sign = (if S \<noteq> [] \<and> hd S = 45 then - 1 else 1);
          S1 = (if S \<noteq> [] \<and> (hd S = 43 \<or> hd S = 45) then tl S else S);
          hex = (2 \<le> length S1 \<and> S1 ! 0 = 48 \<and> (S1 ! 1 = 120 \<or> S1 ! 1 = 88));
          R = (if hex then 16 else 10);
          S2 = (if hex then drop 2 S1 else S1);
          Z = takeWhile (is_radix_digit R) S2
      in if Z = [] then None else Some (sign * int (radix_value R Z)))"

text \<open>\<open>Number.prototype.toString\<close> of an integer-valued Number below \<open>10^21\<close>.\<close>

fun decimal_digits :: "nat \<Rightarrow> jsstring" where
  "decimal_digits n =
     (if n < 10 then [48 + n] else decimal_digits (n div 10) @ [48 + n mod 10])"

declare decimal_digits.simps [simp del]

definition Number_toString :: "int \<Rightarrow> jsstring" where
  "Number_toString i = (if i < 0 then 45 # decimal_digits (nat (- i)) else decimal_digits (nat i))"


text \<open>
  A Number: \<open>NaN\<close>, an infinity, or a finite binary64 value, \<open>Finite q\<close> with \<open>q\<close> the
  exact value (the sign of a zero is not kept: no code here tells \<open>-0\<close> from \<open>0\<close>).
\<close>

datatype jsnum = NaN | PosInfinity | NegInfinity | Finite rat

fun negate :: "jsnum \<Rightarrow> jsnum" where
  "negate NaN = NaN"
| "negate PosInfinity = NegInfinity"
| "negate NegInfinity = PosInfinity"
| "negate (Finite q) = Finite (- q)"

text \<open>The number of binary digits of \<open>n\<close>: \<open>2 ^ (bit_length n - 1) \<le> n < 2 ^ bit_length n\<close>.\<close>

fun bit_length :: "nat \<Rightarrow> nat" where
  "bit_length n = (if n = 0 then 0 else Suc (bit_length (n div 2)))"

declare bit_length.simps [simp del]

definition pow2 :: "int \<Rightarrow> rat" where
  "pow2 k = (if 0 \<le> k then 2 ^ nat k else 1 / 2 ^ nat (- k))"

text \<open>The integer nearest to \<open>a / b\<close>, the even one of two that are equally near.\<close>

definition round_half_even :: "nat \<Rightarrow> nat \<Rightarrow> nat" where
  "round_half_even a b =
     (let f = a div b; r = a mod b
      in if 2 * r < b then f else if b < 2 * r then Suc f
         else if even f then f else Suc f)"

text \<open>
  The Number for the value \<open>a / b\<close> (\<open>b\<close> positive): the nearest binary64 value, ties to
  even. \<open>e\<close> is the binary exponent of the value, \<open>2 ^ e \<le> a / b < 2 ^ (e + 1)\<close>, never
  taken below the least normal exponent \<open>-1022\<close>; the value is rounded to a multiple of
  \<open>2 ^ (e - 52)\<close>, and a result of \<open>2 ^ 1024\<close> is \<open>Infinity\<close>.
\<close>

definition binary64 :: "nat \<Rightarrow> nat \<Rightarrow> jsnum" where
  "binary64 a b =
     (if a = 0 then Finite 0
      else
        (let e0 = int (bit_length a) - int (bit_length b);
             e = (if (if 0 \<le> e0 then 2 ^ nat e0 * b \<le> a else b \<le> a * 2 ^ nat (- e0))
                  then e0 else e0 - 1);
             s = max e (- 1022) - 52;
             n = (if 0 \<le> s then round_half_even a (b * 2 ^ nat s)
                  else round_half_even (a * 2 ^ nat (- s)) b);
             v = of_nat n * pow2 s
         in if 2 ^ 1024 \<le> v then PosInfinity else Finite v))"

definition is_decimal_digit :: "nat \<Rightarrow> bool" where
  "is_decimal_digit c \<longleftrightarrow> 48 \<le> c \<and> c \<le> 57"

text \<open>
  The value of a complete exponent part (\<open>e\<close> or \<open>E\<close>, an optional sign, at least one
  digit) at the start of the text, and 0 when there is none.
\<close>

definition ExponentPart :: "jsstring \<Rightarrow> int" where
  "ExponentPart s =
     (if s \<noteq> [] \<and> (hd s = 101 \<or> hd s = 69) then
        (let t = tl s;
             u = (if t \<noteq> [] \<and> (hd t = 43 \<or> hd t = 45) then tl t else t);
             ds = takeWhile is_decimal_digit u
         in if ds = [] then 0
            else if t \<noteq> [] \<and> hd t = 45 then - int (radix_value 10 ds)
            else int (radix_value 10 ds))
      else 0)"

text \<open>
  \<open>parseFloat(string)\<close>: leading white space is skipped and the longest prefix that is
  a decimal literal (a sign, then \<open>Infinity\<close> or digits with an optional fraction and
  exponent) is read; \<open>NaN\<close> when no prefix is one. The digits \<open>M\<close> of the integer and
  fraction parts and the exponent \<open>E\<close>, less the length of the fraction, denote
  \<open>M * 10 ^ E\<close>, and the result is the Number for that value.
\<close>

definition parseFloat :: "jsstring \<Rightarrow> jsnum" where
  "parseFloat inputString =
     (let S = dropWhile StrWhiteSpaceChar inputString;
          neg = (S \<noteq> [] \<and> hd S = 45);
          S1 = (if S \<noteq> [] \<and> (hd S = 43 \<or> hd S = 45) then tl S else S)
      in if take 8 S1 = js ''Infinity'' then (if neg then NegInfinity else PosInfinity)
         else
           (let ip = takeWhile is_decimal_digit S1;
                r1 = dropWhile is_decimal_digit S1;
                dot = (r1 \<noteq> [] \<and> hd r1 = 46);
                fp = (if dot then takeWhile is_decimal_digit (tl r1) else []);
                r2 = (if dot then dropWhile is_decimal_digit (tl r1) else r1)
            in if ip = [] \<and> fp = [] then NaN
               else
                 (let M = radix_value 10 (ip @ fp);
                      E = ExponentPart r2 - int (length fp);
                      v = (if 0 \<le> E then binary64 (M * 10 ^ nat E) 1
                           else binary64 M (10 ^ nat (- E)))
                  in if neg then negate v else v)))"

text \<open>The comparison \<open>x <= 0\<close> on Numbers; it is false for \<open>NaN\<close>.\<close>

fun le_zero :: "jsnum \<Rightarrow> bool" where
  "le_zero NaN = False"
| "le_zero PosInfinity = False"
| "le_zero NegInfinity = True"
| "le_zero (Finite q) = (q \<le> 0)"

text \<open>
  A Number in the JSON body of a request: \<open>JSON.stringify\<close> writes \<open>NaN\<close> and the
  infinities as \<open>null\<close>.
\<close>

fun JSON_number :: "jsnum \<Rightarrow> rat option" where
  "JSON_number (Finite q) = Some q"
| "JSON_number NaN = None"
| "JSON_number PosInfinity = None"
| "JSON_number NegInfinity = None"

text \<open>\<open>a || b\<close> on strings: the empty string is falsy.\<close>

definition or_else :: "jsstring \<Rightarrow> jsstring \<Rightarrow> jsstring" where
  "or_else a b = (if a = [] then b else a)"

section \<open>The store\<close>

text \<open>
  The relations of the store, with the columns of the migration (for \<open>auction_config\<close>,
  \<open>auction_timer\<close> and \<open>tournament_captain\<close>) and, for \<open>tournaments\<close> and \<open>teams\<close>, the
  columns that the pages read and write. A relation is the list of its rows in the
  order the store holds them.
\<close>

type_synonym uuid = nat
type_synonym timestamp = nat

text \<open>
  An identifier is a UUID. Its text is never empty, so a test such as \<open>if (existingId)\<close>
  is the test for \<open>null\<close>, and an optional identifier is an \<open>option\<close>.
\<close>

record tournament =
  t_id :: uuid
  t_name :: jsstring
  organizer_id :: uuid
  number_of_teams :: int
  team_budget :: int
  captain_voting_enabled :: bool
  is_voting_live :: bool

record team =
  tm_id :: uuid
  tm_tournament_id :: uuid
  tm_name :: jsstring
  logo_url :: "jsstring option"
  captain_id :: "uuid option"
  budget_remaining :: "rat option"
  owner_id :: "uuid option"
  tm_created_at :: timestamp

record config =
  ac_id :: uuid
  ac_tournament_id :: uuid
  category :: jsstring
  max_players :: int
  base_price :: rat
  ac_created_by :: "uuid option"
  ac_created_at :: timestamp
  ac_updated_at :: timestamp
  ac_is_active :: "bool option"

record timer =
  at_id :: uuid
  at_tournament_id :: uuid
  bid_time :: int
  at_created_by :: "uuid option"
  at_created_at :: timestamp
  at_updated_at :: timestamp
  at_is_active :: "bool option"

record captain =
  tc_id :: uuid
  tc_tournament_id :: uuid
  tc_name :: jsstring
  mobile :: jsstring
  photo_url :: "jsstring option"
  votes :: int
  tc_created_by :: "uuid option"
  tc_created_at :: timestamp
  tc_is_active :: "bool option"

text \<open>The requests that the components send to the store, one constructor per call site shape.\<close>

datatype request =
    SelectTournament uuid
  | UpdateTournamentIsVotingLive uuid bool
  | SelectTeams uuid
  | InsertTeam uuid jsstring "uuid option" "rat option" "uuid option"
  | SelectAuctionConfig uuid
  | UpdateAuctionConfigIsActive uuid bool
  | SelectAuctionTimer uuid
  | UpdateAuctionTimerBidTime uuid int
  | InsertAuctionTimer uuid int
  | SelectCaptainsByVotes uuid
  | SelectCaptainsByCreatedAt uuid
  | InsertTournamentCaptain uuid jsstring jsstring "jsstring option" "uuid option"

datatype fault = RowLevelSecurity | UniqueViolation | NotSingleRow

text \<open>
  What the store and the transport decide outside the code: the identity the store sees
  (\<open>auth.uid()\<close>), whether a request fails on its way or is refused for a reason the
  migration does not show (\<open>Some\<close> of the error message), the message of each error the
  store raises itself, the identifier \<open>gen_random_uuid()\<close> draws and the value of \<open>now()\<close>.
  An error is known to the handlers by its \<open>message\<close>; an error without one has the
  empty message.
\<close>

record backend =
  auth_uid :: "uuid option"
  refuse :: "request \<Rightarrow> jsstring option"
  fault_message :: "fault \<Rightarrow> jsstring"
  new_id :: uuid
  now :: timestamp

datatype route = TournamentsIndex | TournamentPage uuid

record notification =
  title :: jsstring
  description :: jsstring
  destructive :: bool

text \<open>
  The world a handler runs in: the relations, the requests sent so far, the
  notifications shown and the navigations made.
\<close>

record world =
  tournaments :: "tournament list"
  teams :: "team list"
  auction_config :: "config list"
  auction_timer :: "timer list"
  tournament_captain :: "captain list"
  sent :: "request list"
  toasts :: "notification list"
  navigated :: "route list"

definition send :: "request \<Rightarrow> world \<Rightarrow> world" where
  "send q w = w\<lparr>sent := sent w @ [q]\<rparr>"

definition toast :: "jsstring \<Rightarrow> jsstring \<Rightarrow> bool \<Rightarrow> world \<Rightarrow> world" where
  "toast t d v w = w\<lparr>toasts := toasts w @ [\<lparr>title = t, description = d, destructive = v\<rparr>]\<rparr>"

definition navigate :: "route \<Rightarrow> world \<Rightarrow> world" where
  "navigate r w = w\<lparr>navigated := navigated w @ [r]\<rparr>"

text \<open>
  The row-level policy of the migration on \<open>auction_config\<close>, \<open>auction_timer\<close> and
  \<open>tournament_captain\<close>: a row may be written when a tournament with the row's
  \<open>tournament_id\<close> has the caller as organizer. Reading is open to everyone.
\<close>

definition organizer_policy :: "backend \<Rightarrow> world \<Rightarrow> uuid \<Rightarrow> bool" where
  "organizer_policy be w tid \<longleftrightarrow>
     (\<exists>t \<in> set (tournaments w). t_id t = tid \<and> Some (organizer_id t) = auth_uid be)"
subsection \<open>The relation \<open>auction_timer\<close>\<close>

text \<open>
  Modelled from the spec: the body of \<open>update_updated_at_column()\<close>, which the triggers of
  the migration execute before every update of \<open>auction_config\<close> and \<open>auction_timer\<close>, is
  not in the migration. The spec calls it an \<open>updated_at\<close> maintenance trigger fired on
  every update: the updated row gets the current time as \<open>updated_at\<close>.
\<close>

definition update_auction_timer_updated_at :: "backend \<Rightarrow> timer \<Rightarrow> timer" where
  "update_auction_timer_updated_at be r = r\<lparr>at_updated_at := now be\<rparr>"

text \<open>
  \<open>from("auction_timer").select("*").eq("tournament_id", t).maybeSingle()\<close>: no row is
  \<open>null\<close> data, one row is that row, several rows are an error.
\<close>

definition db_select_auction_timer ::
  "backend \<Rightarrow> uuid \<Rightarrow> world \<Rightarrow> (jsstring + timer option) \<times> world" where
  "db_select_auction_timer be tid w =
     (let q = SelectAuctionTimer tid; w1 = send q w
      in case refuse be q of
           Some msg \<Rightarrow> (Inl msg, w1)
         | None \<Rightarrow>
             (case filter (\<lambda>r. at_tournament_id r = tid) (auction_timer w) of
                [] \<Rightarrow> (Inr None, w1)
              | [r] \<Rightarrow> (Inr (Some r), w1)
              | _ \<Rightarrow> (Inl (fault_message be NotSingleRow), w1)))"

text \<open>
  \<open>from("auction_timer").update({ bid_time }).eq("id", id)\<close>: the rows with that id
  which the policy lets the caller write get the new value; a row the policy hides is
  left as it is, without an error. The result is the error, if any.
\<close>

definition db_update_auction_timer ::
  "backend \<Rightarrow> uuid \<Rightarrow> int \<Rightarrow> world \<Rightarrow> jsstring option \<times> world" where
  "db_update_auction_timer be eid n w =
     (let q = UpdateAuctionTimerBidTime eid n; w1 = send q w
      in case refuse be q of
           Some msg \<Rightarrow> (Some msg, w1)
         | None \<Rightarrow>
             (None, w1\<lparr>auction_timer :=
                map (\<lambda>r. if at_id r = eid \<and> organizer_policy be w (at_tournament_id r)
                          then update_auction_timer_updated_at be (r\<lparr>bid_time := n\<rparr>) else r)
                    (auction_timer w)\<rparr>))"

text \<open>
  \<open>from("auction_timer").insert({ tournament_id, bid_time })\<close>: the policy must allow
  the new row, and neither the primary key \<open>id\<close> nor the unique \<open>tournament_id\<close> may be
  taken; the other columns get their defaults.
\<close>

definition db_insert_auction_timer ::
  "backend \<Rightarrow> uuid \<Rightarrow> int \<Rightarrow> world \<Rightarrow> jsstring option \<times> world" where
  "db_insert_auction_timer be tid n w =
     (let q = InsertAuctionTimer tid n; w1 = send q w
      in case refuse be q of
           Some msg \<Rightarrow> (Some msg, w1)
         | None \<Rightarrow>
             if \<not> organizer_policy be w tid then (Some (fault_message be RowLevelSecurity), w1)
             else if \<exists>r \<in> set (auction_timer w). at_id r = new_id be \<or> at_tournament_id r = tid
               then (Some (fault_message be UniqueViolation), w1)
             else
               (None, w1\<lparr>auction_timer := auction_timer w @
                  [\<lparr>at_id = new_id be, at_tournament_id = tid, bid_time = n,
                    at_created_by = None, at_created_at = now be, at_updated_at = now be,
                    at_is_active = Some True\<rparr>]\<rparr>))"

section \<open>The bid timer modal\<close>

text \<open>
  The state of \<open>BidTimerConfigModal\<close>; \<open>timerModalOpen\<close> is the state of the menu that
  the modal receives as \<open>open\<close> and sets through \<open>onOpenChange\<close>.
\<close>

record BidTimerConfigModal =
  timerModalOpen :: bool
  bidTime :: jsstring
  bt_loading :: bool
  bt_saving :: bool
  existingId :: "uuid option"

definition fetchTimer ::
  "backend \<Rightarrow> uuid \<Rightarrow> BidTimerConfigModal \<times> world \<Rightarrow> BidTimerConfigModal \<times> world" where
  "fetchTimer be tournamentId = (\<lambda>(m, w).
     case db_select_auction_timer be tournamentId w of
       (Inr (Some data), w1) \<Rightarrow>
         (m\<lparr>bidTime := Number_toString (bid_time data), existingId := Some (at_id data),
            bt_loading := False\<rparr>, w1)
     | (Inr None, w1) \<Rightarrow>
         (m\<lparr>bidTime := js ''10'', existingId := None, bt_loading := False\<rparr>, w1)
     | (Inl msg, w1) \<Rightarrow>
         (m\<lparr>bt_loading := False\<rparr>,
          toast (js ''Error'') (or_else msg (js ''Failed to load timer config.'')) True w1))"

text \<open>The menu opens the modal; the effect on \<open>open\<close> then fetches the timer.\<close>

definition openTimerModal ::
  "backend \<Rightarrow> uuid \<Rightarrow> BidTimerConfigModal \<times> world \<Rightarrow> BidTimerConfigModal \<times> world" where
  "openTimerModal be tournamentId = (\<lambda>(m, w).
     fetchTimer be tournamentId (m\<lparr>timerModalOpen := True\<rparr>, w))"

definition setBidTime ::
  "jsstring \<Rightarrow> BidTimerConfigModal \<times> world \<Rightarrow> BidTimerConfigModal \<times> world" where
  "setBidTime v = (\<lambda>(m, w). (m\<lparr>bidTime := v\<rparr>, w))"

definition BidTimer_handleSubmit ::
  "backend \<Rightarrow> uuid \<Rightarrow> BidTimerConfigModal \<times> world \<Rightarrow> BidTimerConfigModal \<times> world" where
  "BidTimer_handleSubmit be tournamentId = (\<lambda>(m, w).
     let rejected =
           (m, toast (js ''Validation Error'')
                 (js ''Bid time must be between 5 and 120 seconds.'') True w)
     in case parseInt (bidTime m) of
          None \<Rightarrow> rejected
        | Some bidTimeNum \<Rightarrow>
            if bidTimeNum < 5 \<or> bidTimeNum > 120 then rejected
            else
              (case (case existingId m of
                       Some eid \<Rightarrow> db_update_auction_timer be eid bidTimeNum w
                     | None \<Rightarrow> db_insert_auction_timer be tournamentId bidTimeNum w) of
                 (None, w1) \<Rightarrow>
                   (m\<lparr>bt_saving := False, timerModalOpen := False\<rparr>,
                    toast (js ''Success'') (js ''Bid timer configuration saved.'') False w1)
               | (Some msg, w1) \<Rightarrow>
                   (m\<lparr>bt_saving := False\<rparr>,
                    toast (js ''Error'') (or_else msg (js ''Failed to save timer config.''))
                      True w1)))"

text \<open>
  One configuration by the user: open the modal from the menu, type a bid time, submit.
\<close>

definition configureBidTimer ::
  "backend \<Rightarrow> uuid \<Rightarrow> jsstring \<Rightarrow> BidTimerConfigModal \<times> world \<Rightarrow> BidTimerConfigModal \<times> world" where
  "configureBidTimer be tournamentId v s =
     BidTimer_handleSubmit be tournamentId (setBidTime v (openTimerModal be tournamentId s))"

text \<open>
  The constraints of the migration on \<open>auction_timer\<close>: \<open>id\<close> is the primary key and
  \<open>tournament_id\<close> is unique.
\<close>

definition timer_constraints :: "world \<Rightarrow> bool" where
  "timer_constraints w \<longleftrightarrow>
     distinct (map at_id (auction_timer w)) \<and> distinct (map at_tournament_id (auction_timer w))"

section \<open>The tournament action menu\<close>

text \<open>
  \<open>from("tournaments").update({ is_voting_live }).eq("id", id)\<close>. The policies of
  \<open>tournaments\<close> are not in the migration; a refusal by them is part of \<open>refuse\<close>.
\<close>

definition db_update_tournament_is_voting_live ::
  "backend \<Rightarrow> uuid \<Rightarrow> bool \<Rightarrow> world \<Rightarrow> jsstring option \<times> world" where
  "db_update_tournament_is_voting_live be tid v w =
     (let q = UpdateTournamentIsVotingLive tid v; w1 = send q w
      in case refuse be q of
           Some msg \<Rightarrow> (Some msg, w1)
         | None \<Rightarrow>
             (None, w1\<lparr>tournaments :=
                map (\<lambda>t. if t_id t = tid then t\<lparr>is_voting_live := v\<rparr> else t) (tournaments w)\<rparr>))"

text \<open>
  The state of \<open>TournamentActionMenu\<close> that the toggle touches. The callback
  \<open>onVotingToggle\<close> belongs to the parent, which also passes the flag \<open>isVotingLive\<close>;
  the menu only reaches \<open>onVotingToggle?.()\<close>, and \<open>onVotingToggle_calls\<close> counts how often.
\<close>

record TournamentActionMenu =
  isTogglingVoting :: bool
  onVotingToggle_calls :: nat

definition handleToggleVoting ::
  "backend \<Rightarrow> uuid \<Rightarrow> bool \<Rightarrow> TournamentActionMenu \<times> world \<Rightarrow> TournamentActionMenu \<times> world"
  where
  "handleToggleVoting be tournamentId isVotingLive = (\<lambda>(menu, w).
     case db_update_tournament_is_voting_live be tournamentId (\<not> isVotingLive) w of
       (None, w1) \<Rightarrow>
         (menu\<lparr>isTogglingVoting := False, onVotingToggle_calls := Suc (onVotingToggle_calls menu)\<rparr>,
          toast (if isVotingLive then js ''Voting Stopped'' else js ''Voting Started'')
            (if isVotingLive then js ''Captain voting has been stopped.''
             else js ''Captain voting is now live!'') False w1)
     | (Some msg, w1) \<Rightarrow>
         (menu\<lparr>isTogglingVoting := False\<rparr>,
          toast (js ''Error'') (or_else msg (js ''Failed to toggle voting.'')) True w1))"

section \<open>The vote results page\<close>

text \<open>
  \<open>from("tournaments").select(...).eq("id", id).single()\<close>: exactly one row is that row,
  anything else is an error, so the data is never \<open>null\<close> without an error.
\<close>

definition db_select_tournament ::
  "backend \<Rightarrow> uuid \<Rightarrow> world \<Rightarrow> (jsstring + tournament option) \<times> world" where
  "db_select_tournament be tid w =
     (let q = SelectTournament tid; w1 = send q w
      in case refuse be q of
           Some msg \<Rightarrow> (Inl msg, w1)
         | None \<Rightarrow>
             (case filter (\<lambda>t. t_id t = tid) (tournaments w) of
                [t] \<Rightarrow> (Inr (Some t), w1)
              | _ \<Rightarrow> (Inl (fault_message be NotSingleRow), w1)))"

text \<open>
  \<open>from("tournament_captain").select("*").eq("tournament_id", t).eq("is_active", true)
  .order("votes", { ascending: false })\<close>. The store sorts the rows it holds; rows with
  equal votes come out in an order that depends on how the store holds them.
\<close>

definition db_select_captains_by_votes ::
  "backend \<Rightarrow> uuid \<Rightarrow> world \<Rightarrow> (jsstring + captain list) \<times> world" where
  "db_select_captains_by_votes be tid w =
     (let q = SelectCaptainsByVotes tid; w1 = send q w
      in case refuse be q of
           Some msg \<Rightarrow> (Inl msg, w1)
         | None \<Rightarrow>
             (Inr (sort_key (\<lambda>c. - votes c)
                     (filter (\<lambda>c. tc_tournament_id c = tid \<and> tc_is_active c = Some True)
                        (tournament_captain w))), w1))"

record ViewCaptainVotes =
  vc_tournament :: "tournament option"
  captains :: "captain list"
  vc_loading :: bool

definition ViewCaptainVotes_fetchData ::
  "backend \<Rightarrow> uuid \<Rightarrow> ViewCaptainVotes \<times> world \<Rightarrow> ViewCaptainVotes \<times> world" where
  "ViewCaptainVotes_fetchData be tournamentId = (\<lambda>(p, w).
     case db_select_tournament be tournamentId w of
       (Inl msg, w1) \<Rightarrow>
         (p\<lparr>vc_loading := False\<rparr>,
          toast (js ''Error'') (or_else msg (js ''Failed to load voting data.'')) True w1)
     | (Inr tournamentData, w1) \<Rightarrow>
         (case db_select_captains_by_votes be tournamentId w1 of
            (Inl msg, w2) \<Rightarrow>
              (p\<lparr>vc_tournament := tournamentData, vc_loading := False\<rparr>,
               toast (js ''Error'') (or_else msg (js ''Failed to load voting data.'')) True w2)
          | (Inr captainsData, w2) \<Rightarrow>
              (p\<lparr>vc_tournament := tournamentData, captains := captainsData,
                 vc_loading := False\<rparr>, w2)))"

text \<open>\<open>Math.max(...xs, y)\<close> on integers.\<close>

definition Math_max :: "int list \<Rightarrow> int \<Rightarrow> int" where
  "Math_max xs y = fold max xs y"

definition maxVotes :: "captain list \<Rightarrow> int" where
  "maxVotes cs = (if length cs > 0 then Math_max (map votes cs) 1 else 1)"

definition totalVotes :: "captain list \<Rightarrow> int" where
  "totalVotes cs = foldl (\<lambda>sum c. sum + votes c) 0 cs"

section \<open>The category configuration modal\<close>

text \<open>
  Modelled from the spec: \<open>update_updated_at_column()\<close> on \<open>auction_config\<close>, as on
  \<open>auction_timer\<close>; its body is not in the migration.
\<close>

definition update_auction_config_updated_at :: "backend \<Rightarrow> config \<Rightarrow> config" where
  "update_auction_config_updated_at be r = r\<lparr>ac_updated_at := now be\<rparr>"

text \<open>
  \<open>from("auction_config").select("*").eq("tournament_id", t).eq("is_active", true)
  .order("created_at", { ascending: true })\<close>.
\<close>

definition db_select_auction_config ::
  "backend \<Rightarrow> uuid \<Rightarrow> world \<Rightarrow> (jsstring + config list) \<times> world" where
  "db_select_auction_config be tid w =
     (let q = SelectAuctionConfig tid; w1 = send q w
      in case refuse be q of
           Some msg \<Rightarrow> (Inl msg, w1)
         | None \<Rightarrow>
             (Inr (sort_key ac_created_at
                     (filter (\<lambda>r. ac_tournament_id r = tid \<and> ac_is_active r = Some True)
                        (auction_config w))), w1))"

text \<open>
  \<open>from("auction_config").update({ is_active }).eq("id", id)\<close>: as for the timer, a row
  that the policy hides from the caller is left as it is, without an error.
\<close>

definition db_update_auction_config_is_active ::
  "backend \<Rightarrow> uuid \<Rightarrow> bool \<Rightarrow> world \<Rightarrow> jsstring option \<times> world" where
  "db_update_auction_config_is_active be cid v w =
     (let q = UpdateAuctionConfigIsActive cid v; w1 = send q w
      in case refuse be q of
           Some msg \<Rightarrow> (Some msg, w1)
         | None \<Rightarrow>
             (None, w1\<lparr>auction_config :=
                map (\<lambda>r. if ac_id r = cid \<and> organizer_policy be w (ac_tournament_id r)
                          then update_auction_config_updated_at be (r\<lparr>ac_is_active := Some v\<rparr>)
                          else r)
                    (auction_config w)\<rparr>))"

record CategoryConfigModal =
  configs :: "config list"
  cc_loading :: bool
  cc_saving :: bool
  editingId :: "uuid option"

definition fetchConfigs ::
  "backend \<Rightarrow> uuid \<Rightarrow> CategoryConfigModal \<times> world \<Rightarrow> CategoryConfigModal \<times> world" where
  "fetchConfigs be tournamentId = (\<lambda>(m, w).
     case db_select_auction_config be tournamentId w of
       (Inr data, w1) \<Rightarrow> (m\<lparr>configs := data, cc_loading := False\<rparr>, w1)
     | (Inl msg, w1) \<Rightarrow>
         (m\<lparr>cc_loading := False\<rparr>,
          toast (js ''Error'') (or_else msg (js ''Failed to load category config.'')) True w1))"

definition handleDelete ::
  "backend \<Rightarrow> uuid \<Rightarrow> uuid \<Rightarrow> CategoryConfigModal \<times> world \<Rightarrow> CategoryConfigModal \<times> world"
  where
  "handleDelete be tournamentId cid = (\<lambda>(m, w).
     case db_update_auction_config_is_active be cid False w of
       (None, w1) \<Rightarrow>
         fetchConfigs be tournamentId
           (m, toast (js ''Success'') (js ''Category deleted.'') False w1)
     | (Some msg, w1) \<Rightarrow>
         (m, toast (js ''Error'') (or_else msg (js ''Failed to delete category.'')) True w1))"

section \<open>The team creation page\<close>

text \<open>
  \<open>from("teams").select("*").eq("tournament_id", t).order("created_at", { ascending: true })\<close>
  and \<open>from("teams").insert({...})\<close>. The schema and the policies of \<open>teams\<close> are not in
  the migration; a refusal by them is part of \<open>refuse\<close>. The budget of a request is a
  JSON number or \<open>null\<close>; whether the store takes a \<open>null\<close> budget is decided by \<open>refuse\<close>
  too, and a row that it takes holds what the request carried.
\<close>

definition db_select_teams ::
  "backend \<Rightarrow> uuid \<Rightarrow> world \<Rightarrow> (jsstring + team list) \<times> world" where
  "db_select_teams be tid w =
     (let q = SelectTeams tid; w1 = send q w
      in case refuse be q of
           Some msg \<Rightarrow> (Inl msg, w1)
         | None \<Rightarrow>
             (Inr (sort_key tm_created_at (filter (\<lambda>r. tm_tournament_id r = tid) (teams w))), w1))"

definition db_insert_team ::
  "backend \<Rightarrow> uuid \<Rightarrow> jsstring \<Rightarrow> uuid option \<Rightarrow> rat option \<Rightarrow> uuid option \<Rightarrow> world
     \<Rightarrow> jsstring option \<times> world" where
  "db_insert_team be tid nm cap budget owner w =
     (let q = InsertTeam tid nm cap budget owner; w1 = send q w
      in case refuse be q of
           Some msg \<Rightarrow> (Some msg, w1)
         | None \<Rightarrow>
             (None, w1\<lparr>teams := teams w @
                [\<lparr>tm_id = new_id be, tm_tournament_id = tid, tm_name = nm, logo_url = None,
                  captain_id = cap, budget_remaining = budget, owner_id = owner,
                  tm_created_at = now be\<rparr>]\<rparr>))"

record player =
  p_id :: uuid
  user_id :: uuid
  full_name :: jsstring
  p_mobile :: jsstring

text \<open>
  The state of \<open>CreateTeams\<close>. The signed-in user of \<open>useAuth\<close> is passed to the handlers
  as \<open>user\<close>, the id of the user or \<open>None\<close> when nobody is signed in.
\<close>

record CreateTeams =
  ct_tournament :: "tournament option"
  ct_teams :: "team list"
  ct_loading :: bool
  creating :: bool
  teamName :: jsstring
  teamBudget :: jsstring
  selectedCaptain :: "player option"

definition CreateTeams_initial :: CreateTeams where
  "CreateTeams_initial =
     \<lparr>ct_tournament = None, ct_teams = [], ct_loading = True, creating = False,
      teamName = [], teamBudget = [], selectedCaptain = None\<rparr>"

definition fetchTournamentAndTeams ::
  "backend \<Rightarrow> uuid option \<Rightarrow> uuid \<Rightarrow> CreateTeams \<times> world \<Rightarrow> CreateTeams \<times> world" where
  "fetchTournamentAndTeams be user tournamentId = (\<lambda>(p, w).
     case db_select_tournament be tournamentId w of
       (Inl msg, w1) \<Rightarrow>
         (p\<lparr>ct_loading := False\<rparr>,
          toast (js ''Error'') (or_else msg (js ''Failed to load tournament data.'')) True w1)
     | (Inr None, w1) \<Rightarrow>
         (p\<lparr>ct_loading := False\<rparr>,
          navigate TournamentsIndex
            (toast (js ''Error'') (js ''Tournament not found.'') True w1))
     | (Inr (Some tournamentData), w1) \<Rightarrow>
         if user \<noteq> None \<and> Some (organizer_id tournamentData) \<noteq> user then
           (p\<lparr>ct_loading := False\<rparr>,
            navigate (TournamentPage tournamentId)
              (toast (js ''Access Denied'') (js ''Only the organizer can manage teams.'') True w1))
         else
           (case db_select_teams be tournamentId w1 of
              (Inl msg, w2) \<Rightarrow>
                (p\<lparr>ct_tournament := Some tournamentData,
                   teamBudget := Number_toString (team_budget tournamentData),
                   ct_loading := False\<rparr>,
                 toast (js ''Error'') (or_else msg (js ''Failed to load tournament data.'')) True w2)
            | (Inr teamsData, w2) \<Rightarrow>
                (p\<lparr>ct_tournament := Some tournamentData,
                   teamBudget := Number_toString (team_budget tournamentData),
                   ct_teams := teamsData, ct_loading := False\<rparr>, w2)))"

definition handleCreateTeam ::
  "backend \<Rightarrow> uuid option \<Rightarrow> uuid \<Rightarrow> CreateTeams \<times> world \<Rightarrow> CreateTeams \<times> world" where
  "handleCreateTeam be user tournamentId = (\<lambda>(p, w).
     if trim (teamName p) = [] then
       (p, toast (js ''Validation Error'') (js ''Team name is required.'') True w)
     else if teamBudget p = [] \<or> le_zero (parseFloat (teamBudget p)) then
       (p, toast (js ''Validation Error'') (js ''Please enter a valid team budget.'') True w)
     else
       (case db_insert_team be tournamentId (trim (teamName p))
               (map_option user_id (selectedCaptain p))
               (JSON_number (parseFloat (teamBudget p))) user w of
          (Some msg, w1) \<Rightarrow>
            (p\<lparr>creating := False\<rparr>,
             toast (js ''Error'') (or_else msg (js ''Failed to create team.'')) True w1)
        | (None, w1) \<Rightarrow>
            fetchTournamentAndTeams be user tournamentId
              (p\<lparr>teamName := [], selectedCaptain := None,
                 teamBudget := (case ct_tournament p of
                                  Some t \<Rightarrow> Number_toString (team_budget t) | None \<Rightarrow> []),
                 creating := False\<rparr>,
               toast (js ''Success'')
                 (js ''Team '' @ [34] @ teamName p @ [34] @ js '' created successfully.'')
                 False w1)))"

text \<open>
  The budget field is an \<open><input type="number">\<close>. The value such a field reports to
  \<open>onChange\<close> is the text typed when that is a valid floating-point number of HTML (an
  optional \<open>-\<close>, digits or a fraction or both, an optional exponent), and the empty string
  otherwise. The name field is a text field and reports the text typed.
\<close>

definition valid_exponent :: "jsstring \<Rightarrow> bool" where
  "valid_exponent r \<longleftrightarrow>
     r = [] \<or>
     ((hd r = 101 \<or> hd r = 69) \<and>
      (let t = tl r;
           u = (if t \<noteq> [] \<and> (hd t = 43 \<or> hd t = 45) then tl t else t)
       in u \<noteq> [] \<and> list_all is_decimal_digit u))"

definition valid_floating_point_number :: "jsstring \<Rightarrow> bool" where
  "valid_floating_point_number s \<longleftrightarrow>
     (let s1 = (if s \<noteq> [] \<and> hd s = 45 then tl s else s);
          ip = takeWhile is_decimal_digit s1;
          r1 = dropWhile is_decimal_digit s1;
          dot = (r1 \<noteq> [] \<and> hd r1 = 46);
          fp = (if dot then takeWhile is_decimal_digit (tl r1) else []);
          r2 = (if dot then dropWhile is_decimal_digit (tl r1) else r1)
      in (if dot then fp \<noteq> [] else ip \<noteq> []) \<and> valid_exponent r2)"

definition number_input_value :: "jsstring \<Rightarrow> jsstring" where
  "number_input_value typed = (if valid_floating_point_number typed then typed else [])"

text \<open>What the budget field can hold: nothing, or a valid floating-point number.\<close>

definition budget_field_value :: "jsstring \<Rightarrow> bool" where
  "budget_field_value v \<longleftrightarrow> v = [] \<or> valid_floating_point_number v"

definition setTeamName :: "jsstring \<Rightarrow> CreateTeams \<Rightarrow> CreateTeams" where
  "setTeamName v p = p\<lparr>teamName := v\<rparr>"

definition setTeamBudget :: "jsstring \<Rightarrow> CreateTeams \<Rightarrow> CreateTeams" where
  "setTeamBudget v p = p\<lparr>teamBudget := v\<rparr>"

definition handleSelectCaptain :: "player \<Rightarrow> CreateTeams \<Rightarrow> CreateTeams" where
  "handleSelectCaptain pl p = p\<lparr>selectedCaptain := Some pl\<rparr>"

text \<open>
  The states of the page: the initial state of the mount, and what the fetch, the two
  fields, the choice of a captain and a submission make of a state, in any world and
  with any answer of the backend.
\<close>

inductive CreateTeams_state :: "CreateTeams \<Rightarrow> bool" where
  mounted: "CreateTeams_state CreateTeams_initial"
| fetched:
    "CreateTeams_state p \<Longrightarrow>
     CreateTeams_state (fst (fetchTournamentAndTeams be user tid (p, w)))"
| name_typed: "CreateTeams_state p \<Longrightarrow> CreateTeams_state (setTeamName typed p)"
| budget_typed:
    "CreateTeams_state p \<Longrightarrow> CreateTeams_state (setTeamBudget (number_input_value typed) p)"
| captain_selected: "CreateTeams_state p \<Longrightarrow> CreateTeams_state (handleSelectCaptain pl p)"
| submitted:
    "CreateTeams_state p \<Longrightarrow> CreateTeams_state (fst (handleCreateTeam be user tid (p, w)))"

text \<open>What the page shows: the spinner, the not-found message, or the page with or
  without the creation form and the completion banner.\<close>

record teams_page =
  create_form :: bool
  completion_banner :: "jsstring option"

datatype CreateTeams_view = Spinner | TournamentNotFound | TeamsPage teams_page

definition canCreateMore :: "team list \<Rightarrow> tournament \<Rightarrow> bool" where
  "canCreateMore ts t \<longleftrightarrow> int (length ts) < number_of_teams t"

definition CreateTeams_render :: "CreateTeams \<Rightarrow> CreateTeams_view" where
  "CreateTeams_render p =
     (if ct_loading p then Spinner
      else case ct_tournament p of
             None \<Rightarrow> TournamentNotFound
           | Some t \<Rightarrow>
               TeamsPage
                 \<lparr>create_form = canCreateMore (ct_teams p) t,
                  completion_banner =
                    (if \<not> canCreateMore (ct_teams p) t
                     then Some (js ''All '' @ Number_toString (number_of_teams t)
                                @ js '' teams have been created!'')
                     else None)\<rparr>)"

text \<open>A budget that is a number greater than zero (\<open>Infinity\<close> is one, \<open>NaN\<close> is none).\<close>

definition strictly_positive :: "jsnum \<Rightarrow> bool" where
  "strictly_positive x \<longleftrightarrow> x \<noteq> NaN \<and> \<not> le_zero x"

section \<open>The captain creation page\<close>

text \<open>
  \<open>from("tournament_captain").select("*").eq("tournament_id", t).eq("is_active", true)
  .order("created_at", { ascending: false })\<close> and \<open>from("tournament_captain").insert({...})\<close>,
  under the policy and the primary key of the migration.
\<close>

definition db_select_captains_by_created_at ::
  "backend \<Rightarrow> uuid \<Rightarrow> world \<Rightarrow> (jsstring + captain list) \<times> world" where
  "db_select_captains_by_created_at be tid w =
     (let q = SelectCaptainsByCreatedAt tid; w1 = send q w
      in case refuse be q of
           Some msg \<Rightarrow> (Inl msg, w1)
         | None \<Rightarrow>
             (Inr (sort_key (\<lambda>c. - int (tc_created_at c))
                     (filter (\<lambda>c. tc_tournament_id c = tid \<and> tc_is_active c = Some True)
                        (tournament_captain w))), w1))"

definition db_insert_tournament_captain ::
  "backend \<Rightarrow> uuid \<Rightarrow> jsstring \<Rightarrow> jsstring \<Rightarrow> jsstring option \<Rightarrow> uuid option \<Rightarrow> world
     \<Rightarrow> jsstring option \<times> world" where
  "db_insert_tournament_captain be tid nm mob photo creator w =
     (let q = InsertTournamentCaptain tid nm mob photo creator; w1 = send q w
      in case refuse be q of
           Some msg \<Rightarrow> (Some msg, w1)
         | None \<Rightarrow>
             if \<not> organizer_policy be w tid then (Some (fault_message be RowLevelSecurity), w1)
             else if \<exists>r \<in> set (tournament_captain w). tc_id r = new_id be
               then (Some (fault_message be UniqueViolation), w1)
             else
               (None, w1\<lparr>tournament_captain := tournament_captain w @
                  [\<lparr>tc_id = new_id be, tc_tournament_id = tid, tc_name = nm, mobile = mob,
                    photo_url = photo, votes = 0, tc_created_by = creator,
                    tc_created_at = now be, tc_is_active = Some True\<rparr>]\<rparr>))"

record CreateCaptains =
  cp_tournament :: "tournament option"
  cp_captains :: "captain list"
  cp_loading :: bool
  cp_creating :: bool
  captainName :: jsstring
  captainMobile :: jsstring
  photoPreview :: "jsstring option"

definition CreateCaptains_initial :: CreateCaptains where
  "CreateCaptains_initial =
     \<lparr>cp_tournament = None, cp_captains = [], cp_loading = True, cp_creating = False,
      captainName = [], captainMobile = [], photoPreview = None\<rparr>"

text \<open>\<open>fetchCaptains\<close> throws the error of the store; the result carries it to the caller.\<close>

definition fetchCaptains ::
  "backend \<Rightarrow> uuid \<Rightarrow> CreateCaptains \<times> world \<Rightarrow> jsstring option \<times> CreateCaptains \<times> world"
  where
  "fetchCaptains be tournamentId = (\<lambda>(p, w).
     case db_select_captains_by_created_at be tournamentId w of
       (Inl msg, w1) \<Rightarrow> (Some msg, p, w1)
     | (Inr data, w1) \<Rightarrow> (None, p\<lparr>cp_captains := data\<rparr>, w1))"

definition CreateCaptains_fetchData ::
  "backend \<Rightarrow> uuid option \<Rightarrow> uuid \<Rightarrow> CreateCaptains \<times> world \<Rightarrow> CreateCaptains \<times> world" where
  "CreateCaptains_fetchData be user tournamentId = (\<lambda>(p, w).
     case db_select_tournament be tournamentId w of
       (Inl msg, w1) \<Rightarrow>
         (p\<lparr>cp_loading := False\<rparr>,
          toast (js ''Error'') (or_else msg (js ''Failed to load tournament data.'')) True w1)
     | (Inr None, w1) \<Rightarrow>
         (p\<lparr>cp_loading := False\<rparr>,
          navigate TournamentsIndex
            (toast (js ''Error'') (js ''Tournament not found.'') True w1))
     | (Inr (Some tournamentData), w1) \<Rightarrow>
         if user \<noteq> None \<and> Some (organizer_id tournamentData) \<noteq> user then
           (p\<lparr>cp_loading := False\<rparr>,
            navigate (TournamentPage tournamentId)
              (toast (js ''Access Denied'') (js ''Only the organizer can manage captains.'')
                 True w1))
         else if \<not> captain_voting_enabled tournamentData then
           (p\<lparr>cp_loading := False\<rparr>,
            navigate (TournamentPage tournamentId)
              (toast (js ''Not Available'')
                 (js ''Captain voting is not enabled for this tournament.'') True w1))
         else
           (case fetchCaptains be tournamentId (p\<lparr>cp_tournament := Some tournamentData\<rparr>, w1) of
              (None, p2, w2) \<Rightarrow> (p2\<lparr>cp_loading := False\<rparr>, w2)
            | (Some msg, p2, w2) \<Rightarrow>
                (p2\<lparr>cp_loading := False\<rparr>,
                 toast (js ''Error'') (or_else msg (js ''Failed to load tournament data.''))
                   True w2)))"

definition handleCreateCaptain ::
  "backend \<Rightarrow> uuid option \<Rightarrow> uuid \<Rightarrow> CreateCaptains \<times> world \<Rightarrow> CreateCaptains \<times> world" where
  "handleCreateCaptain be user tournamentId = (\<lambda>(p, w).
     if trim (captainName p) = [] \<or> trim (captainMobile p) = [] then
       (p, toast (js ''Validation Error'') (js ''Name and mobile number are required.'') True w)
     else if length (captainMobile p) < 10 then
       (p, toast (js ''Validation Error'') (js ''Please enter a valid mobile number.'') True w)
     else
       (case db_insert_tournament_captain be tournamentId (trim (captainName p))
               (trim (captainMobile p)) (photoPreview p) user w of
          (Some msg, w1) \<Rightarrow>
            (p\<lparr>cp_creating := False\<rparr>,
             toast (js ''Error'') (or_else msg (js ''Failed to add captain.'')) True w1)
        | (None, w1) \<Rightarrow>
            (case fetchCaptains be tournamentId
                    (p\<lparr>captainName := [], captainMobile := [], photoPreview := None\<rparr>,
                     toast (js ''Success'')
                       (js ''Captain '' @ [34] @ captainName p @ [34] @ js '' added successfully.'')
                       False w1) of
               (None, p2, w2) \<Rightarrow> (p2\<lparr>cp_creating := False\<rparr>, w2)
             | (Some msg, p2, w2) \<Rightarrow>
                 (p2\<lparr>cp_creating := False\<rparr>,
                  toast (js ''Error'') (or_else msg (js ''Failed to add captain.'')) True w2))))"

section \<open>Sample data\<close>

text \<open>
  A store with one tournament, number 1, organised by user 7, and a backend through which
  user 7 is signed in and no request fails on its way.
\<close>

definition sample_tournament :: tournament where
  "sample_tournament =
     \<lparr>t_id = 1, t_name = js ''Summer Cup'', organizer_id = 7, number_of_teams = 8,
      team_budget = 5000, captain_voting_enabled = True, is_voting_live = False\<rparr>"

definition sample_world :: world where
  "sample_world =
     \<lparr>tournaments = [sample_tournament], teams = [], auction_config = [], auction_timer = [],
      tournament_captain = [], sent = [], toasts = [], navigated = []\<rparr>"

definition sample_backend :: backend where
  "sample_backend =
     \<lparr>auth_uid = Some 7, refuse = (\<lambda>q. None), fault_message = (\<lambda>f. js ''store error''),
      new_id = 100, now = 50\<rparr>"

definition closed_timer_modal :: BidTimerConfigModal where
  "closed_timer_modal =
     \<lparr>timerModalOpen = False, bidTime = js ''10'', bt_loading = False, bt_saving = False,
      existingId = None\<rparr>"

definition sample_captain :: "uuid \<Rightarrow> int \<Rightarrow> captain" where
  "sample_captain i v =
     \<lparr>tc_id = i, tc_tournament_id = 1, tc_name = js ''Asha'', mobile = js ''9876543210'',
      photo_url = None, votes = v, tc_created_by = Some 7, tc_created_at = 10,
      tc_is_active = Some True\<rparr>"

definition sample_menu :: TournamentActionMenu where
  "sample_menu = \<lparr>isTogglingVoting = False, onVotingToggle_calls = 0\<rparr>"

definition sample_votes_page :: ViewCaptainVotes where
  "sample_votes_page = \<lparr>vc_tournament = None, captains = [], vc_loading = True\<rparr>"

definition sample_config :: "uuid \<Rightarrow> jsstring \<Rightarrow> config" where
  "sample_config i c =
     \<lparr>ac_id = i, ac_tournament_id = 1, category = c, max_players = 5, base_price = 5000,
      ac_created_by = None, ac_created_at = 20 + i, ac_updated_at = 20 + i,
      ac_is_active = Some True\<rparr>"

definition sample_category_modal :: CategoryConfigModal where
  "sample_category_modal =
     \<lparr>configs = [], cc_loading = False, cc_saving = False, editingId = None\<rparr>"

definition sample_team :: "uuid \<Rightarrow> team" where
  "sample_team i =
     \<lparr>tm_id = i, tm_tournament_id = 1, tm_name = js ''Lions'', logo_url = None,
      captain_id = None, budget_remaining = Some 5000, owner_id = Some 7,
      tm_created_at = 30 + i\<rparr>"

section \<open>Evaluating the built-ins\<close>

lemmas parse_defs =
  js_def parseInt_def parseFloat_def ExponentPart_def StrWhiteSpaceChar_def is_radix_digit_def
  is_decimal_digit_def digit_value_def radix_value_def trim_def Let_def

lemma parseInt_examples:
  "parseInt (js ''10'') = Some 10"
  "parseInt (js ''30'') = Some 30"
  "parseInt (js ''121'') = Some 121"
  "parseInt (js ''abc'') = None"
  "parseInt (js '''') = None"
  by (simp_all add: parse_defs)

section \<open>Bid timer configuration\<close>

text \<open>
  C1. A bid-timer submission whose text \<open>parseInt\<close> does not read as an integer from 5 to
  120 (no digits at all included) is rejected: the only effect is the notification
  "Validation Error"; no request is sent, the relation \<open>auction_timer\<close> and the state of
  the modal are as before.
\<close>

theorem bid_timer_invalid_rejected:
  assumes "case parseInt (bidTime m) of None \<Rightarrow> True | Some n \<Rightarrow> n < 5 \<or> 120 < n"
  shows "BidTimer_handleSubmit be tournamentId (m, w) =
           (m, w\<lparr>toasts := toasts w @
                  [\<lparr>title = js ''Validation Error'',
                    description = js ''Bid time must be between 5 and 120 seconds.'',
                    destructive = True\<rparr>]\<rparr>)
         \<and> sent (snd (BidTimer_handleSubmit be tournamentId (m, w))) = sent w
         \<and> auction_timer (snd (BidTimer_handleSubmit be tournamentId (m, w))) = auction_timer w"
  using assms
  by (auto simp: BidTimer_handleSubmit_def toast_def Let_def split: option.splits)

theorem bid_timer_invalid_rejected_witness:
  "(case parseInt (bidTime (closed_timer_modal\<lparr>bidTime := js ''121''\<rparr>)) of
      None \<Rightarrow> True | Some n \<Rightarrow> n < 5 \<or> 120 < n)
   \<and> sent (snd (BidTimer_handleSubmit sample_backend 1
        (closed_timer_modal\<lparr>bidTime := js ''121''\<rparr>, sample_world))) = []
   \<and> auction_timer (snd (BidTimer_handleSubmit sample_backend 1
        (closed_timer_modal\<lparr>bidTime := js ''121''\<rparr>, sample_world))) = []"
  using bid_timer_invalid_rejected
          [of "closed_timer_modal\<lparr>bidTime := js ''121''\<rparr>" sample_backend 1 sample_world]
  by (simp add: parseInt_examples sample_world_def)

lemma filter_key_unique:
  "distinct (map f xs) \<Longrightarrow> length (filter (\<lambda>r. f r = k) xs) \<le> 1"
proof (induction xs)
  case Nil
  then show ?case by simp
next
  case (Cons x xs)
  show ?case
  proof (cases "f x = k")
    case True
    with Cons.prems have "k \<notin> f ` set xs" by auto
    then have "filter (\<lambda>r. f r = k) xs = []" by (auto simp: filter_empty_conv)
    with True show ?thesis by simp
  next
    case False
    with Cons show ?thesis by simp
  qed
qed

lemma organizer_policy_cong:
  "tournaments w' = tournaments w \<Longrightarrow> organizer_policy be w' tid = organizer_policy be w tid"
  by (simp add: organizer_policy_def)

lemma fetchTimer_absent:
  assumes "refuse be (SelectAuctionTimer tid) = None"
    and "filter (\<lambda>r. at_tournament_id r = tid) (auction_timer w) = []"
  shows "openTimerModal be tid (m, w) =
           (m\<lparr>timerModalOpen := True, bidTime := js ''10'', existingId := None, bt_loading := False\<rparr>,
            send (SelectAuctionTimer tid) w)"
  using assms by (simp add: openTimerModal_def fetchTimer_def db_select_auction_timer_def Let_def)

lemma fetchTimer_present:
  assumes "refuse be (SelectAuctionTimer tid) = None"
    and "filter (\<lambda>r. at_tournament_id r = tid) (auction_timer w) = [r]"
  shows "openTimerModal be tid (m, w) =
           (m\<lparr>timerModalOpen := True, bidTime := Number_toString (bid_time r),
              existingId := Some (at_id r), bt_loading := False\<rparr>,
            send (SelectAuctionTimer tid) w)"
  using assms by (simp add: openTimerModal_def fetchTimer_def db_select_auction_timer_def Let_def)

lemma submit_insert:
  assumes "existingId m = None" "parseInt (bidTime m) = Some n" "5 \<le> n" "n \<le> 120"
    and "refuse be (InsertAuctionTimer tid n) = None"
    and "organizer_policy be w tid"
    and "\<forall>r \<in> set (auction_timer w). at_id r \<noteq> new_id be \<and> at_tournament_id r \<noteq> tid"
  shows "BidTimer_handleSubmit be tid (m, w) =
           (m\<lparr>bt_saving := False, timerModalOpen := False\<rparr>,
            toast (js ''Success'') (js ''Bid timer configuration saved.'') False
              ((send (InsertAuctionTimer tid n) w)\<lparr>auction_timer := auction_timer w @
                  [\<lparr>at_id = new_id be, at_tournament_id = tid, bid_time = n,
                    at_created_by = None, at_created_at = now be, at_updated_at = now be,
                    at_is_active = Some True\<rparr>]\<rparr>))"
  using assms by (auto simp: BidTimer_handleSubmit_def db_insert_auction_timer_def Let_def)

lemma submit_update:
  assumes "existingId m = Some eid" "parseInt (bidTime m) = Some n" "5 \<le> n" "n \<le> 120"
    and "refuse be (UpdateAuctionTimerBidTime eid n) = None"
  shows "BidTimer_handleSubmit be tid (m, w) =
           (m\<lparr>bt_saving := False, timerModalOpen := False\<rparr>,
            toast (js ''Success'') (js ''Bid timer configuration saved.'') False
              ((send (UpdateAuctionTimerBidTime eid n) w)\<lparr>auction_timer :=
                map (\<lambda>r. if at_id r = eid \<and> organizer_policy be w (at_tournament_id r)
                          then update_auction_timer_updated_at be (r\<lparr>bid_time := n\<rparr>) else r)
                    (auction_timer w)\<rparr>))"
  using assms by (auto simp: BidTimer_handleSubmit_def db_update_auction_timer_def Let_def)

text \<open>One configuration round on a store that has the timer row \<open>r\<close> of the tournament.\<close>

lemma configure_present:
  assumes sel: "refuse be (SelectAuctionTimer tid) = None"
    and upd: "refuse be (UpdateAuctionTimerBidTime (at_id r) n) = None"
    and row: "filter (\<lambda>r. at_tournament_id r = tid) (auction_timer w) = [r]"
    and pol: "organizer_policy be w tid"
    and v: "parseInt v = Some n" "5 \<le> n" "n \<le> 120"
    and res: "configureBidTimer be tid v (m, w) = (m', w')"
  shows "sent w' = sent w @ [SelectAuctionTimer tid, UpdateAuctionTimerBidTime (at_id r) n]
       \<and> filter (\<lambda>r. at_tournament_id r = tid) (auction_timer w') =
           [r\<lparr>bid_time := n, at_updated_at := now be\<rparr>]
       \<and> tournaments w' = tournaments w"
proof -
  let ?g = "\<lambda>x. if at_id x = at_id r \<and> organizer_policy be w (at_tournament_id x)
                  then update_auction_timer_updated_at be (x\<lparr>bid_time := n\<rparr>) else x"
  have w': "w' = toast (js ''Success'') (js ''Bid timer configuration saved.'') False
              ((send (UpdateAuctionTimerBidTime (at_id r) n) (send (SelectAuctionTimer tid) w))
                 \<lparr>auction_timer := map ?g (auction_timer w)\<rparr>)"
    using res v upd
    by (simp add: configureBidTimer_def fetchTimer_present[OF sel row] setBidTime_def
        submit_update[where eid = "at_id r" and n = n] send_def organizer_policy_def)
  have keep: "at_tournament_id (?g x) = at_tournament_id x" for x
    by (simp add: update_auction_timer_updated_at_def)
  have "r \<in> set (filter (\<lambda>r. at_tournament_id r = tid) (auction_timer w))"
    by (simp add: row)
  then have "at_tournament_id r = tid" by simp
  then have gr: "?g r = r\<lparr>bid_time := n, at_updated_at := now be\<rparr>"
    using pol by (simp add: update_auction_timer_updated_at_def)
  have "filter (\<lambda>r. at_tournament_id r = tid) (map ?g (auction_timer w))
          = map ?g (filter (\<lambda>r. at_tournament_id r = tid) (auction_timer w))"
    by (simp add: filter_map o_def keep)
  then have "filter (\<lambda>r. at_tournament_id r = tid) (map ?g (auction_timer w))
          = [r\<lparr>bid_time := n, at_updated_at := now be\<rparr>]"
    using gr by (simp add: row)
  then show ?thesis
    by (simp add: w' toast_def send_def)
qed

text \<open>One configuration round on a store that has no timer row of the tournament.\<close>

lemma configure_absent:
  assumes sel: "refuse be (SelectAuctionTimer tid) = None"
    and ins: "refuse be (InsertAuctionTimer tid n) = None"
    and row: "filter (\<lambda>r. at_tournament_id r = tid) (auction_timer w) = []"
    and fresh: "new_id be \<notin> at_id ` set (auction_timer w)"
    and pol: "organizer_policy be w tid"
    and v: "parseInt v = Some n" "5 \<le> n" "n \<le> 120"
    and res: "configureBidTimer be tid v (m, w) = (m', w')"
  shows "sent w' = sent w @ [SelectAuctionTimer tid, InsertAuctionTimer tid n]
       \<and> auction_timer w' = auction_timer w @
            [\<lparr>at_id = new_id be, at_tournament_id = tid, bid_time = n,
              at_created_by = None, at_created_at = now be, at_updated_at = now be,
              at_is_active = Some True\<rparr>]
       \<and> tournaments w' = tournaments w"
proof -
  have free: "\<forall>r \<in> set (auction_timer w). at_id r \<noteq> new_id be \<and> at_tournament_id r \<noteq> tid"
  proof
    fix r assume r: "r \<in> set (auction_timer w)"
    from r fresh have "at_id r \<noteq> new_id be" by (metis imageI)
    moreover from r row have "at_tournament_id r \<noteq> tid" by (simp add: filter_empty_conv)
    ultimately show "at_id r \<noteq> new_id be \<and> at_tournament_id r \<noteq> tid" by simp
  qed
  have "w' = toast (js ''Success'') (js ''Bid timer configuration saved.'') False
              ((send (InsertAuctionTimer tid n) (send (SelectAuctionTimer tid) w))
                 \<lparr>auction_timer := auction_timer w @
                    [\<lparr>at_id = new_id be, at_tournament_id = tid, bid_time = n,
                      at_created_by = None, at_created_at = now be, at_updated_at = now be,
                      at_is_active = Some True\<rparr>]\<rparr>)"
    using res v ins pol free
    by (simp add: configureBidTimer_def fetchTimer_absent[OF sel row] setBidTime_def
        submit_insert[where n = n] send_def organizer_policy_def)
  then show ?thesis
    by (simp add: toast_def send_def)
qed

text \<open>
  Whatever the backend answers and whatever the form holds, a submission keeps the
  constraints of the relation, so a tournament never has a second timer row.
\<close>

lemma handleSubmit_keeps_constraints:
  assumes "timer_constraints w"
  shows "timer_constraints (snd (BidTimer_handleSubmit be tid (m, w)))"
proof -
  have upd: "timer_constraints (snd (db_update_auction_timer be eid n w))" for eid n
  proof -
    let ?g = "\<lambda>r. if at_id r = eid \<and> organizer_policy be w (at_tournament_id r)
                   then update_auction_timer_updated_at be (r\<lparr>bid_time := n\<rparr>) else r"
    have "at_id \<circ> ?g = at_id" and "at_tournament_id \<circ> ?g = at_tournament_id"
      by (simp_all add: fun_eq_iff update_auction_timer_updated_at_def)
    then show ?thesis
      using assms
      by (simp add: db_update_auction_timer_def timer_constraints_def Let_def send_def
          split: option.split)
  qed
  have ins: "timer_constraints (snd (db_insert_auction_timer be tid n w))" for n
    using assms
    by (auto simp: db_insert_auction_timer_def timer_constraints_def Let_def send_def
        split: option.split)
  have shown: "timer_constraints (toast t d v x) = timer_constraints x" for t d v x
    by (simp add: timer_constraints_def toast_def)
  show ?thesis
    using assms upd ins
    by (simp add: BidTimer_handleSubmit_def shown Let_def split_beta split: option.split)
qed

text \<open>
  C2. Configuring the bid timer twice for one tournament leaves exactly one row of that
  tournament in \<open>auction_timer\<close>. The store obeys the constraints of the migration, the
  organizer is signed in, no request fails on its way and both bid times are valid. The
  first submission is an update keyed by the id of the row found when the modal opened,
  or an insert when there was none; the second is an update keyed by the id of the one
  row, which then holds the second bid time.
\<close>

theorem bid_timer_configured_twice_one_row:
  assumes cons: "timer_constraints w"
    and pol1: "organizer_policy be1 w tid" and pol2: "organizer_policy be2 w tid"
    and ok1: "\<forall>q. refuse be1 q = None" and ok2: "\<forall>q. refuse be2 q = None"
    and fresh: "new_id be1 \<notin> at_id ` set (auction_timer w)"
    and v1: "parseInt v1 = Some n1" "5 \<le> n1" "n1 \<le> 120"
    and v2: "parseInt v2 = Some n2" "5 \<le> n2" "n2 \<le> 120"
    and res: "configureBidTimer be2 tid v2 (configureBidTimer be1 tid v1 (m, w)) = (m', w')"
  shows "length (filter (\<lambda>r. at_tournament_id r = tid) (auction_timer w')) = 1
       \<and> (\<exists>r. filter (\<lambda>r. at_tournament_id r = tid) (auction_timer w') = [r]
            \<and> bid_time r = n2
            \<and> sent w' = sent w @
                 [SelectAuctionTimer tid,
                  (case filter (\<lambda>r. at_tournament_id r = tid) (auction_timer w) of
                     [] \<Rightarrow> InsertAuctionTimer tid n1
                   | r0 # _ \<Rightarrow> UpdateAuctionTimerBidTime (at_id r0) n1),
                  SelectAuctionTimer tid,
                  UpdateAuctionTimerBidTime (at_id r) n2])"
proof -
  obtain m1 w1 where r1: "configureBidTimer be1 tid v1 (m, w) = (m1, w1)"
    by (cases "configureBidTimer be1 tid v1 (m, w)")
  have r2: "configureBidTimer be2 tid v2 (m1, w1) = (m', w')"
    using res r1 by simp
  have "length (filter (\<lambda>r. at_tournament_id r = tid) (auction_timer w)) \<le> 1"
    using cons filter_key_unique[of at_tournament_id "auction_timer w" tid]
    by (simp add: timer_constraints_def)
  then consider "filter (\<lambda>r. at_tournament_id r = tid) (auction_timer w) = []"
    | r0 where "filter (\<lambda>r. at_tournament_id r = tid) (auction_timer w) = [r0]"
    by (cases "filter (\<lambda>r. at_tournament_id r = tid) (auction_timer w)") auto
  then show ?thesis
  proof cases
    case 1
    let ?new = "\<lparr>at_id = new_id be1, at_tournament_id = tid, bid_time = n1,
              at_created_by = None, at_created_at = now be1, at_updated_at = now be1,
              at_is_active = Some True\<rparr>"
    from configure_absent[OF _ _ 1 fresh pol1 v1 r1] ok1
    have s1: "sent w1 = sent w @ [SelectAuctionTimer tid, InsertAuctionTimer tid n1]"
      and t1: "auction_timer w1 = auction_timer w @ [?new]"
      and tn1: "tournaments w1 = tournaments w"
      by simp_all
    have row1: "filter (\<lambda>r. at_tournament_id r = tid) (auction_timer w1) = [?new]"
      by (simp add: t1 1)
    have pol2': "organizer_policy be2 w1 tid"
      using pol2 by (simp add: organizer_policy_cong[OF tn1])
    from configure_present[OF _ _ row1 pol2' v2 r2] ok2
    have "sent w' = sent w1 @ [SelectAuctionTimer tid, UpdateAuctionTimerBidTime (at_id ?new) n2]"
      and "filter (\<lambda>r. at_tournament_id r = tid) (auction_timer w') =
             [?new\<lparr>bid_time := n2, at_updated_at := now be2\<rparr>]"
      by simp_all
    then show ?thesis by (simp add: s1 1)
  next
    case 2
    from configure_present[OF _ _ 2 pol1 v1 r1] ok1
    have s1: "sent w1 = sent w @ [SelectAuctionTimer tid, UpdateAuctionTimerBidTime (at_id r0) n1]"
      and row1: "filter (\<lambda>r. at_tournament_id r = tid) (auction_timer w1) =
             [r0\<lparr>bid_time := n1, at_updated_at := now be1\<rparr>]"
      and tn1: "tournaments w1 = tournaments w"
      by simp_all
    have pol2': "organizer_policy be2 w1 tid"
      using pol2 by (simp add: organizer_policy_cong[OF tn1])
    from configure_present[OF _ _ row1 pol2' v2 r2] ok2
    have "sent w' = sent w1 @ [SelectAuctionTimer tid, UpdateAuctionTimerBidTime (at_id r0) n2]"
      and "filter (\<lambda>r. at_tournament_id r = tid) (auction_timer w') =
             [r0\<lparr>bid_time := n2, at_updated_at := now be2\<rparr>]"
      by simp_all
    then show ?thesis by (simp add: s1 2)
  qed
qed

theorem bid_timer_configured_twice_one_row_witness:
  "timer_constraints sample_world \<and> organizer_policy sample_backend sample_world 1
   \<and> (\<forall>q. refuse sample_backend q = None)
   \<and> new_id sample_backend \<notin> at_id ` set (auction_timer sample_world)
   \<and> parseInt (js ''10'') = Some 10 \<and> parseInt (js ''30'') = Some 30
   \<and> length (filter (\<lambda>r. at_tournament_id r = 1)
        (auction_timer (snd (configureBidTimer sample_backend 1 (js ''30'')
           (configureBidTimer sample_backend 1 (js ''10'') (closed_timer_modal, sample_world)))))) = 1"
proof -
  have c: "timer_constraints sample_world"
    by (simp add: timer_constraints_def sample_world_def)
  have p: "organizer_policy sample_backend sample_world 1"
    by (simp add: organizer_policy_def sample_world_def sample_backend_def sample_tournament_def)
  have ok: "\<forall>q. refuse sample_backend q = None"
    by (simp add: sample_backend_def)
  have f: "new_id sample_backend \<notin> at_id ` set (auction_timer sample_world)"
    by (simp add: sample_world_def)
  have v1: "parseInt (js ''10'') = Some 10" "(5::int) \<le> 10" "(10::int) \<le> 120"
    by (simp_all add: parseInt_examples)
  have v2: "parseInt (js ''30'') = Some 30" "(5::int) \<le> 30" "(30::int) \<le> 120"
    by (simp_all add: parseInt_examples)
  from bid_timer_configured_twice_one_row[OF c p p ok ok f v1 v2 prod.collapse[symmetric]]
  show ?thesis using c p ok f v1 v2 by simp
qed

section \<open>Starting and stopping the voting\<close>

text \<open>
  C3. When the store accepts the update, toggling with \<open>isVotingLive = false\<close> sends one
  request, an update of \<open>tournaments\<close> keyed by the id that sets \<open>is_voting_live\<close> to true,
  and notifies "Voting Started"; toggling with \<open>isVotingLive = true\<close> sets it to false
  and notifies "Voting Stopped". When the menu shows the stored flag, a toggle followed
  by a toggle from the flag it persisted gives back the relation \<open>tournaments\<close>.
\<close>

theorem voting_toggle:
  assumes ok: "\<forall>v. refuse be (UpdateTournamentIsVotingLive tid v) = None"
  shows "sent (snd (handleToggleVoting be tid False (menu, w))) =
           sent w @ [UpdateTournamentIsVotingLive tid True]
       \<and> tournaments (snd (handleToggleVoting be tid False (menu, w))) =
           map (\<lambda>t. if t_id t = tid then t\<lparr>is_voting_live := True\<rparr> else t) (tournaments w)
       \<and> toasts (snd (handleToggleVoting be tid False (menu, w))) =
           toasts w @
             [\<lparr>title = js ''Voting Started'', description = js ''Captain voting is now live!'',
               destructive = False\<rparr>]
       \<and> sent (snd (handleToggleVoting be tid True (menu, w))) =
           sent w @ [UpdateTournamentIsVotingLive tid False]
       \<and> tournaments (snd (handleToggleVoting be tid True (menu, w))) =
           map (\<lambda>t. if t_id t = tid then t\<lparr>is_voting_live := False\<rparr> else t) (tournaments w)
       \<and> toasts (snd (handleToggleVoting be tid True (menu, w))) =
           toasts w @
             [\<lparr>title = js ''Voting Stopped'', description = js ''Captain voting has been stopped.'',
               destructive = False\<rparr>]
       \<and> ((\<forall>t \<in> set (tournaments w). t_id t = tid \<longrightarrow> is_voting_live t = live) \<longrightarrow>
            tournaments (snd (handleToggleVoting be tid (\<not> live)
                                (handleToggleVoting be tid live (menu, w)))) = tournaments w)"
proof -
  have start: "handleToggleVoting be tid False (mn, x) =
      (mn\<lparr>isTogglingVoting := False, onVotingToggle_calls := Suc (onVotingToggle_calls mn)\<rparr>,
       toast (js ''Voting Started'') (js ''Captain voting is now live!'') False
         ((send (UpdateTournamentIsVotingLive tid True) x)\<lparr>tournaments :=
            map (\<lambda>t. if t_id t = tid then t\<lparr>is_voting_live := True\<rparr> else t) (tournaments x)\<rparr>))"
    for mn x
    using ok by (simp add: handleToggleVoting_def db_update_tournament_is_voting_live_def Let_def)
  have stop: "handleToggleVoting be tid True (mn, x) =
      (mn\<lparr>isTogglingVoting := False, onVotingToggle_calls := Suc (onVotingToggle_calls mn)\<rparr>,
       toast (js ''Voting Stopped'') (js ''Captain voting has been stopped.'') False
         ((send (UpdateTournamentIsVotingLive tid False) x)\<lparr>tournaments :=
            map (\<lambda>t. if t_id t = tid then t\<lparr>is_voting_live := False\<rparr> else t) (tournaments x)\<rparr>))"
    for mn x
    using ok by (simp add: handleToggleVoting_def db_update_tournament_is_voting_live_def Let_def)
  have twice: "tournaments (snd (handleToggleVoting be tid (\<not> live)
                                (handleToggleVoting be tid live (menu, w)))) = tournaments w"
    if shown: "\<forall>t \<in> set (tournaments w). t_id t = tid \<longrightarrow> is_voting_live t = live"
  proof -
    have undo: "map (\<lambda>t. if t_id t = tid then t\<lparr>is_voting_live := b\<rparr> else t)
            (map (\<lambda>t. if t_id t = tid then t\<lparr>is_voting_live := a\<rparr> else t) (tournaments w))
          = tournaments w"
      if "\<forall>t \<in> set (tournaments w). t_id t = tid \<longrightarrow> is_voting_live t = b" for a b
      using that by (auto intro!: map_idI)
    show ?thesis
    proof (cases live)
      case True
      with undo[of True False] shown show ?thesis
        by (simp add: start stop toast_def send_def)
    next
      case False
      with undo[of False True] shown show ?thesis
        by (simp add: start stop toast_def send_def)
    qed
  qed
  show ?thesis
    using twice by (simp add: start stop toast_def send_def)
qed


theorem voting_toggle_witness:
  "(\<forall>v. refuse sample_backend (UpdateTournamentIsVotingLive 1 v) = None)
   \<and> map is_voting_live (tournaments sample_world) = [False]
   \<and> tournaments (snd (handleToggleVoting sample_backend 1 False (sample_menu, sample_world))) =
       [sample_tournament\<lparr>is_voting_live := True\<rparr>]
   \<and> toasts (snd (handleToggleVoting sample_backend 1 False (sample_menu, sample_world))) =
       [\<lparr>title = js ''Voting Started'', description = js ''Captain voting is now live!'',
         destructive = False\<rparr>]
   \<and> tournaments (snd (handleToggleVoting sample_backend 1 True
        (handleToggleVoting sample_backend 1 False (sample_menu, sample_world)))) =
       [sample_tournament]"
proof -
  have ok: "\<forall>v. refuse sample_backend (UpdateTournamentIsVotingLive 1 v) = None"
    by (simp add: sample_backend_def)
  have shown: "\<forall>t \<in> set (tournaments sample_world). t_id t = 1 \<longrightarrow> is_voting_live t = False"
    by (simp add: sample_world_def sample_tournament_def)
  from voting_toggle[OF ok, of sample_menu sample_world False] ok shown
  show ?thesis
    by (simp add: sample_world_def sample_tournament_def)
qed

section \<open>Vote results\<close>

lemma fold_max_ge: "y \<le> fold max xs (y::int)"
proof (induction xs arbitrary: y)
  case Nil
  show ?case by simp
next
  case (Cons x xs)
  have "y \<le> max x y" by simp
  also have "\<dots> \<le> fold max xs (max x y)" by (rule Cons.IH)
  finally show ?case by simp
qed

lemma fold_max_Max: "fold max xs (y::int) = Max (insert y (set xs))"
proof (induction xs arbitrary: y)
  case Nil
  show ?case by simp
next
  case (Cons x xs)
  have "fold max (x # xs) y = Max (insert (max x y) (set xs))"
    by (simp add: Cons.IH)
  also have "\<dots> = Max (insert y (set (x # xs)))"
    by (cases "set xs = {}") (simp_all add: max.assoc max.commute max.left_commute)
  finally show ?case .
qed

lemma foldl_votes: "foldl (\<lambda>sum c. sum + votes c) a cs = a + sum_list (map votes cs)"
  by (induction cs arbitrary: a) simp_all

text \<open>
  C4. For every captain list, \<open>maxVotes\<close> is at least 1, so it is never the zero by which
  the progress value would divide; it is the largest of the votes and 1. \<open>totalVotes\<close>
  is the sum of the votes of the listed captains.
\<close>

theorem maxVotes_floor_totalVotes_sum:
  "1 \<le> maxVotes cs \<and> maxVotes cs \<noteq> 0
   \<and> maxVotes cs = Max (insert 1 (set (map votes cs)))
   \<and> totalVotes cs = sum_list (map votes cs)"
proof -
  have m: "maxVotes cs = fold max (map votes cs) 1"
    by (cases cs) (simp_all add: maxVotes_def Math_max_def)
  have floor: "1 \<le> maxVotes cs"
    unfolding m by (rule fold_max_ge)
  then have nonzero: "maxVotes cs \<noteq> 0"
    by linarith
  have largest: "maxVotes cs = Max (insert 1 (set (map votes cs)))"
    unfolding m by (rule fold_max_Max)
  have total: "totalVotes cs = sum_list (map votes cs)"
    by (simp add: totalVotes_def foldl_votes)
  from floor nonzero largest total show ?thesis
    by blast
qed

lemma fetchData_votes_loaded:
  assumes "refuse be (SelectTournament tid) = None"
    and "refuse be (SelectCaptainsByVotes tid) = None"
    and "filter (\<lambda>t. t_id t = tid) (tournaments w) = [t]"
  shows "captains (fst (ViewCaptainVotes_fetchData be tid (p, w))) =
           sort_key (\<lambda>c. - votes c)
             (filter (\<lambda>c. tc_tournament_id c = tid \<and> tc_is_active c = Some True)
                (tournament_captain w))"
  using assms
  by (simp add: ViewCaptainVotes_fetchData_def db_select_tournament_def
      db_select_captains_by_votes_def Let_def send_def)

lemma tied_captains_order:
  "captains (fst (ViewCaptainVotes_fetchData sample_backend 1
      (sample_votes_page,
       sample_world\<lparr>tournament_captain := [sample_captain 2 3, sample_captain 3 3]\<rparr>))) =
     [sample_captain 2 3, sample_captain 3 3]"
  "captains (fst (ViewCaptainVotes_fetchData sample_backend 1
      (sample_votes_page,
       sample_world\<lparr>tournament_captain := [sample_captain 3 3, sample_captain 2 3]\<rparr>))) =
     [sample_captain 3 3, sample_captain 2 3]"
  by (simp_all add: fetchData_votes_loaded[where t = sample_tournament]
      sample_backend_def sample_world_def sample_tournament_def sample_captain_def)

text \<open>
  C5. When the page loads (the tournament is found and no request fails), its listing
  holds exactly the captains of the tournament whose \<open>is_active\<close> is true, each once, in
  descending order of votes. Among equal votes the order is not fixed by the rows: two
  stores with the same rows give different listings.
\<close>

theorem vote_results_listing:
  assumes "refuse be (SelectTournament tid) = None"
    and "refuse be (SelectCaptainsByVotes tid) = None"
    and "filter (\<lambda>t. t_id t = tid) (tournaments w) = [t]"
  shows "mset (captains (fst (ViewCaptainVotes_fetchData be tid (p, w)))) =
           mset (filter (\<lambda>c. tc_tournament_id c = tid \<and> tc_is_active c = Some True)
                   (tournament_captain w))
       \<and> set (captains (fst (ViewCaptainVotes_fetchData be tid (p, w)))) =
           {c \<in> set (tournament_captain w). tc_tournament_id c = tid \<and> tc_is_active c = Some True}
       \<and> sorted_wrt (\<lambda>a b. votes a \<ge> votes b)
           (captains (fst (ViewCaptainVotes_fetchData be tid (p, w))))
       \<and> (\<exists>w1 w2. mset (tournament_captain w1) = mset (tournament_captain w2)
            \<and> captains (fst (ViewCaptainVotes_fetchData sample_backend 1 (sample_votes_page, w1)))
              \<noteq> captains (fst (ViewCaptainVotes_fetchData sample_backend 1 (sample_votes_page, w2))))"
proof -
  let ?rows = "filter (\<lambda>c. tc_tournament_id c = tid \<and> tc_is_active c = Some True)
                 (tournament_captain w)"
  have listing: "captains (fst (ViewCaptainVotes_fetchData be tid (p, w))) =
                   sort_key (\<lambda>c. - votes c) ?rows"
    using assms by (rule fetchData_votes_loaded)
  have "sorted (map (\<lambda>c. - votes c) (sort_key (\<lambda>c. - votes c) ?rows))"
    by (rule sorted_sort_key)
  then have ordered: "sorted_wrt (\<lambda>a b. votes a \<ge> votes b) (sort_key (\<lambda>c. - votes c) ?rows)"
    by (simp add: sorted_map)
  let ?w1 = "sample_world\<lparr>tournament_captain := [sample_captain 2 3, sample_captain 3 3]\<rparr>"
  let ?w2 = "sample_world\<lparr>tournament_captain := [sample_captain 3 3, sample_captain 2 3]\<rparr>"
  have "mset (tournament_captain ?w1) = mset (tournament_captain ?w2)"
    by (simp add: add.commute)
  moreover have "captains (fst (ViewCaptainVotes_fetchData sample_backend 1 (sample_votes_page, ?w1)))
      \<noteq> captains (fst (ViewCaptainVotes_fetchData sample_backend 1 (sample_votes_page, ?w2)))"
    by (simp only: tied_captains_order) (simp add: sample_captain_def)
  ultimately have ties: "\<exists>w1 w2. mset (tournament_captain w1) = mset (tournament_captain w2)
            \<and> captains (fst (ViewCaptainVotes_fetchData sample_backend 1 (sample_votes_page, w1)))
              \<noteq> captains (fst (ViewCaptainVotes_fetchData sample_backend 1 (sample_votes_page, w2)))"
    by blast
  have members: "set (sort_key (\<lambda>c. - votes c) ?rows) =
      {c \<in> set (tournament_captain w). tc_tournament_id c = tid \<and> tc_is_active c = Some True}"
    by auto
  show ?thesis
    using ordered ties members by (simp add: listing)
qed

theorem vote_results_listing_witness:
  "refuse sample_backend (SelectTournament 1) = None
   \<and> refuse sample_backend (SelectCaptainsByVotes 1) = None
   \<and> filter (\<lambda>t. t_id t = 1) (tournaments sample_world) = [sample_tournament]
   \<and> mset (captains (fst (ViewCaptainVotes_fetchData sample_backend 1
        (sample_votes_page,
         sample_world\<lparr>tournament_captain :=
           [sample_captain 2 3, (sample_captain 3 9)\<lparr>tc_is_active := Some False\<rparr>,
            sample_captain 4 5]\<rparr>)))) =
       {#sample_captain 2 3, sample_captain 4 5#}
   \<and> sorted_wrt (\<lambda>a b. votes a \<ge> votes b)
        (captains (fst (ViewCaptainVotes_fetchData sample_backend 1
          (sample_votes_page,
           sample_world\<lparr>tournament_captain :=
             [sample_captain 2 3, (sample_captain 3 9)\<lparr>tc_is_active := Some False\<rparr>,
              sample_captain 4 5]\<rparr>))))"
proof -
  let ?w = "sample_world\<lparr>tournament_captain :=
           [sample_captain 2 3, (sample_captain 3 9)\<lparr>tc_is_active := Some False\<rparr>,
            sample_captain 4 5]\<rparr>"
  have a: "refuse sample_backend (SelectTournament 1) = None"
    and b: "refuse sample_backend (SelectCaptainsByVotes 1) = None"
    by (simp_all add: sample_backend_def)
  have c: "filter (\<lambda>t. t_id t = 1) (tournaments sample_world) = [sample_tournament]"
    by (simp add: sample_world_def sample_tournament_def)
  have c': "filter (\<lambda>t. t_id t = 1) (tournaments ?w) = [sample_tournament]"
    using c by simp
  from vote_results_listing[OF a b c', of sample_votes_page] a b c
  show ?thesis
    by (simp add: sample_captain_def)
qed

section \<open>Soft delete of a category\<close>

lemma handleDelete_accepted:
  assumes upd: "refuse be (UpdateAuctionConfigIsActive cid False) = None"
    and sel: "refuse be (SelectAuctionConfig tid) = None"
  shows "handleDelete be tid cid (m, w) =
     (let rows = map (\<lambda>x. if ac_id x = cid \<and> organizer_policy be w (ac_tournament_id x)
                            then x\<lparr>ac_is_active := Some False, ac_updated_at := now be\<rparr> else x)
                   (auction_config w)
      in (m\<lparr>configs := sort_key ac_created_at
                 (filter (\<lambda>r. ac_tournament_id r = tid \<and> ac_is_active r = Some True) rows),
            cc_loading := False\<rparr>,
          w\<lparr>auction_config := rows,
            sent := sent w @ [UpdateAuctionConfigIsActive cid False, SelectAuctionConfig tid],
            toasts := toasts w @
              [\<lparr>title = js ''Success'', description = js ''Category deleted.'',
                destructive = False\<rparr>]\<rparr>))"
  unfolding update_auction_config_updated_at_def handleDelete_def
    db_update_auction_config_is_active_def fetchConfigs_def db_select_auction_config_def
  using upd sel
  by (simp add: Let_def send_def toast_def)

text \<open>
  C6. When the organizer soft-deletes a category and no request fails, the handler sends
  one update, which carries only \<open>is_active = false\<close> and is keyed by the id, and then
  lists again. In \<open>auction_config\<close> the rows with that id get \<open>is_active = false\<close> (and the
  \<open>updated_at\<close> of the trigger); their category, \<open>max_players\<close> and \<open>base_price\<close> and every
  other row stay as they were. The row is no longer in the active listing of the modal,
  and is still in the relation under its id.
\<close>

theorem soft_delete_category:
  assumes upd: "refuse be (UpdateAuctionConfigIsActive cid False) = None"
    and sel: "refuse be (SelectAuctionConfig tid) = None"
    and pol: "\<forall>x \<in> set (auction_config w). ac_id x = cid \<longrightarrow>
                organizer_policy be w (ac_tournament_id x)"
    and row: "r \<in> set (auction_config w)" "ac_id r = cid"
    and res: "handleDelete be tid cid (m, w) = (m', w')"
  shows "sent w' = sent w @ [UpdateAuctionConfigIsActive cid False, SelectAuctionConfig tid]
       \<and> auction_config w' =
           map (\<lambda>x. if ac_id x = cid
                     then x\<lparr>ac_is_active := Some False, ac_updated_at := now be\<rparr> else x)
               (auction_config w)
       \<and> map ac_id (auction_config w') = map ac_id (auction_config w)
       \<and> map category (auction_config w') = map category (auction_config w)
       \<and> map max_players (auction_config w') = map max_players (auction_config w)
       \<and> map base_price (auction_config w') = map base_price (auction_config w)
       \<and> filter (\<lambda>x. ac_id x \<noteq> cid) (auction_config w') =
           filter (\<lambda>x. ac_id x \<noteq> cid) (auction_config w)
       \<and> (\<forall>c \<in> set (configs m'). ac_id c \<noteq> cid)
       \<and> r\<lparr>ac_is_active := Some False, ac_updated_at := now be\<rparr> \<in> set (auction_config w')"
proof -
  let ?g = "\<lambda>x. if ac_id x = cid
                 then x\<lparr>ac_is_active := Some False, ac_updated_at := now be\<rparr> else x"
  let ?h = "\<lambda>x. if ac_id x = cid \<and> organizer_policy be w (ac_tournament_id x)
                 then x\<lparr>ac_is_active := Some False, ac_updated_at := now be\<rparr> else x"
  have same: "map ?h (auction_config w) = map ?g (auction_config w)"
    using pol by (intro map_cong) auto
  from res have m': "m' = m\<lparr>configs := sort_key ac_created_at
                 (filter (\<lambda>r. ac_tournament_id r = tid \<and> ac_is_active r = Some True)
                    (map ?g (auction_config w))),
            cc_loading := False\<rparr>"
    and w': "w' = w\<lparr>auction_config := map ?g (auction_config w),
            sent := sent w @ [UpdateAuctionConfigIsActive cid False, SelectAuctionConfig tid],
            toasts := toasts w @
              [\<lparr>title = js ''Success'', description = js ''Category deleted.'',
                destructive = False\<rparr>]\<rparr>"
    unfolding handleDelete_accepted[OF upd sel] Let_def same by simp_all
  have rows: "auction_config w' = map ?g (auction_config w)"
    and log: "sent w' = sent w @ [UpdateAuctionConfigIsActive cid False, SelectAuctionConfig tid]"
    by (simp_all add: w')
  have ids: "map ac_id (map ?g xs) = map ac_id xs"
    and cats: "map category (map ?g xs) = map category xs"
    and maxs: "map max_players (map ?g xs) = map max_players xs"
    and prices: "map base_price (map ?g xs) = map base_price xs"
    and others: "filter (\<lambda>x. ac_id x \<noteq> cid) (map ?g xs) = filter (\<lambda>x. ac_id x \<noteq> cid) xs"
    for xs
    by (induction xs) simp_all
  have hidden: "\<forall>c \<in> set (configs m'). ac_id c \<noteq> cid"
  proof
    fix c assume "c \<in> set (configs m')"
    then have "c \<in> ?g ` set (auction_config w)" and "ac_is_active c = Some True"
      by (simp_all add: m')
    then obtain x where "c = ?g x" by (elim imageE)
    with \<open>ac_is_active c = Some True\<close> show "ac_id c \<noteq> cid"
      by (cases "ac_id x = cid") simp_all
  qed
  have "?g r \<in> set (map ?g (auction_config w))"
    unfolding set_map using row(1) by (rule imageI)
  then have kept: "r\<lparr>ac_is_active := Some False, ac_updated_at := now be\<rparr> \<in> set (auction_config w')"
    using row(2) by (simp add: rows)
  show ?thesis
    using log rows hidden kept
    by (simp only: ids cats maxs prices others simp_thms)
qed


theorem soft_delete_category_witness:
  "refuse sample_backend (UpdateAuctionConfigIsActive 2 False) = None
   \<and> refuse sample_backend (SelectAuctionConfig 1) = None
   \<and> organizer_policy sample_backend sample_world 1
   \<and> auction_config (snd (handleDelete sample_backend 1 2
        (sample_category_modal,
         sample_world\<lparr>auction_config :=
           [sample_config 2 (js ''Gold''), sample_config 3 (js ''Silver'')]\<rparr>))) =
       [(sample_config 2 (js ''Gold''))\<lparr>ac_is_active := Some False,
           ac_updated_at := now sample_backend\<rparr>,
        sample_config 3 (js ''Silver'')]
   \<and> 2 \<notin> ac_id ` set (configs (fst (handleDelete sample_backend 1 2
        (sample_category_modal,
         sample_world\<lparr>auction_config :=
           [sample_config 2 (js ''Gold''), sample_config 3 (js ''Silver'')]\<rparr>))))"
proof -
  let ?w = "sample_world\<lparr>auction_config :=
           [sample_config 2 (js ''Gold''), sample_config 3 (js ''Silver'')]\<rparr>"
  have upd: "refuse sample_backend (UpdateAuctionConfigIsActive 2 False) = None"
    and sel: "refuse sample_backend (SelectAuctionConfig 1) = None"
    by (simp_all add: sample_backend_def)
  have org: "organizer_policy sample_backend sample_world 1"
    by (simp add: organizer_policy_def sample_world_def sample_backend_def sample_tournament_def)
  then have org': "organizer_policy sample_backend ?w 1"
    by (simp add: organizer_policy_def)
  have tid: "ac_tournament_id (sample_config i c) = 1" and cid: "ac_id (sample_config i c) = i"
    for i c
    by (simp_all add: sample_config_def)
  have pol: "\<forall>x \<in> set (auction_config ?w). ac_id x = 2 \<longrightarrow>
               organizer_policy sample_backend ?w (ac_tournament_id x)"
    using org' by (simp add: tid)
  have row: "sample_config 2 (js ''Gold'') \<in> set (auction_config ?w)"
    by simp
  from soft_delete_category[OF upd sel pol row cid prod.collapse[symmetric]] upd sel org
  show ?thesis
    by (auto simp: tid cid)
qed

section \<open>Creating captains\<close>

lemma trim_examples:
  "trim (js ''Asha'') = js ''Asha''"
  "trim (js ''  '') = []"
  "trim (js '' Lions '') = js ''Lions''"
  "trim (js ''9876543210'') = js ''9876543210''"
  by (simp_all add: parse_defs)

text \<open>
  What the handler does test: a submission whose trimmed name or trimmed mobile text is
  empty, or whose mobile text as typed has fewer than 10 characters, is rejected with a
  "Validation Error" notification, no request is sent and \<open>tournament_captain\<close> is as
  before.
\<close>

lemma handleCreateCaptain_rejected:
  assumes "trim (captainName p) = [] \<or> trim (captainMobile p) = []
           \<or> length (captainMobile p) < 10"
  shows "(\<exists>d. handleCreateCaptain be user tid (p, w) =
             (p, w\<lparr>toasts := toasts w @
                     [\<lparr>title = js ''Validation Error'', description = d, destructive = True\<rparr>]\<rparr>))
      \<and> sent (snd (handleCreateCaptain be user tid (p, w))) = sent w
      \<and> tournament_captain (snd (handleCreateCaptain be user tid (p, w))) = tournament_captain w"
  using assms by (auto simp: handleCreateCaptain_def toast_def)

text \<open>
  C8. The mobile number is required to have at least 10 characters, but the handler
  measures the text as typed and inserts the trimmed text. The mobile field is a
  \<open>tel\<close> field, which reports spaces as typed: for the name "Asha" and the mobile text
  " 987654321", a space and nine digits, the length test sees 10 characters, nothing is
  rejected, and the captain is inserted with the 9-character mobile number "987654321".
\<close>

theorem captain_short_mobile_inserted:
  "length (js '' 987654321'') = 10
   \<and> trim (js '' 987654321'') = js ''987654321''
   \<and> length (js ''987654321'') = 9
   \<and> sent (snd (handleCreateCaptain sample_backend (Some 7) 1
        (CreateCaptains_initial\<lparr>captainName := js ''Asha'', captainMobile := js '' 987654321''\<rparr>,
         sample_world))) =
       [InsertTournamentCaptain 1 (js ''Asha'') (js ''987654321'') None (Some 7),
        SelectCaptainsByCreatedAt 1]
   \<and> map mobile (tournament_captain (snd (handleCreateCaptain sample_backend (Some 7) 1
        (CreateCaptains_initial\<lparr>captainName := js ''Asha'', captainMobile := js '' 987654321''\<rparr>,
         sample_world)))) = [js ''987654321'']
   \<and> map title (toasts (snd (handleCreateCaptain sample_backend (Some 7) 1
        (CreateCaptains_initial\<lparr>captainName := js ''Asha'', captainMobile := js '' 987654321''\<rparr>,
         sample_world)))) = [js ''Success'']"
proof -
  have typed: "trim (js ''Asha'') = js ''Asha''" "js ''Asha'' \<noteq> []"
    "trim (js '' 987654321'') = js ''987654321''" "js ''987654321'' \<noteq> []"
    "length (js '' 987654321'') = 10" "length (js ''987654321'') = 9"
    by (simp_all add: parse_defs)
  have run: "snd (handleCreateCaptain sample_backend (Some 7) 1
        (CreateCaptains_initial\<lparr>captainName := js ''Asha'', captainMobile := js '' 987654321''\<rparr>,
         sample_world)) =
      \<lparr>tournaments = [sample_tournament], teams = [], auction_config = [], auction_timer = [],
       tournament_captain =
         [\<lparr>tc_id = 100, tc_tournament_id = 1, tc_name = js ''Asha'', mobile = js ''987654321'',
           photo_url = None, votes = 0, tc_created_by = Some 7, tc_created_at = 50,
           tc_is_active = Some True\<rparr>],
       sent = [InsertTournamentCaptain 1 (js ''Asha'') (js ''987654321'') None (Some 7),
               SelectCaptainsByCreatedAt 1],
       toasts = [\<lparr>title = js ''Success'',
                  description = js ''Captain '' @ [34] @ js ''Asha'' @ [34]
                                @ js '' added successfully.'',
                  destructive = False\<rparr>],
       navigated = []\<rparr>"
    unfolding handleCreateCaptain_def db_insert_tournament_captain_def fetchCaptains_def
      db_select_captains_by_created_at_def organizer_policy_def sample_backend_def
      sample_world_def CreateCaptains_initial_def send_def toast_def
    by (simp add: typed sample_tournament_def Let_def)
  show ?thesis
    unfolding run by (simp add: typed)
qed

lemma captain_created_example:
  "tournament_captain (snd (handleCreateCaptain sample_backend (Some 7) 1
      (CreateCaptains_initial\<lparr>captainName := js ''Asha'', captainMobile := js ''9876543210''\<rparr>,
       sample_world))) =
     [\<lparr>tc_id = 100, tc_tournament_id = 1, tc_name = js ''Asha'', mobile = js ''9876543210'',
       photo_url = None, votes = 0, tc_created_by = Some 7, tc_created_at = 50,
       tc_is_active = Some True\<rparr>]"
  unfolding handleCreateCaptain_def db_insert_tournament_captain_def fetchCaptains_def
    db_select_captains_by_created_at_def organizer_policy_def sample_backend_def
  by (simp add: trim_examples CreateCaptains_initial_def sample_world_def sample_tournament_def
      Let_def send_def toast_def)
    (simp add: js_def)

section \<open>The organizer check of the pages\<close>

text \<open>
  C10. When a user is signed in, the tournament is fetched and its \<open>organizer_id\<close> is not
  the user's id, each of the two pages shows "Access Denied", navigates to the page of
  the tournament, sends no request after the fetch of the tournament, and leaves its
  state as it was but for the loading flag; on a load of the page, which starts from
  the initial state, the tournament is unset and the lists are empty.
\<close>

theorem non_organizer_access_denied:
  assumes found: "refuse be (SelectTournament tid) = None"
      "filter (\<lambda>t. t_id t = tid) (tournaments w) = [t]"
    and other: "organizer_id t \<noteq> uid"
  shows "fetchTournamentAndTeams be (Some uid) tid (p, w) =
           (p\<lparr>ct_loading := False\<rparr>,
            w\<lparr>sent := sent w @ [SelectTournament tid],
              toasts := toasts w @
                [\<lparr>title = js ''Access Denied'',
                  description = js ''Only the organizer can manage teams.'',
                  destructive = True\<rparr>],
              navigated := navigated w @ [TournamentPage tid]\<rparr>)
       \<and> ct_tournament (fst (fetchTournamentAndTeams be (Some uid) tid (CreateTeams_initial, w))) = None
       \<and> ct_teams (fst (fetchTournamentAndTeams be (Some uid) tid (CreateTeams_initial, w))) = []
       \<and> CreateCaptains_fetchData be (Some uid) tid (q, w) =
           (q\<lparr>cp_loading := False\<rparr>,
            w\<lparr>sent := sent w @ [SelectTournament tid],
              toasts := toasts w @
                [\<lparr>title = js ''Access Denied'',
                  description = js ''Only the organizer can manage captains.'',
                  destructive = True\<rparr>],
              navigated := navigated w @ [TournamentPage tid]\<rparr>)
       \<and> cp_tournament (fst (CreateCaptains_fetchData be (Some uid) tid (CreateCaptains_initial, w))) = None
       \<and> cp_captains (fst (CreateCaptains_fetchData be (Some uid) tid (CreateCaptains_initial, w))) = []"
proof -
  have teams_page: "fetchTournamentAndTeams be (Some uid) tid (p', w) =
           (p'\<lparr>ct_loading := False\<rparr>,
            w\<lparr>sent := sent w @ [SelectTournament tid],
              toasts := toasts w @
                [\<lparr>title = js ''Access Denied'',
                  description = js ''Only the organizer can manage teams.'',
                  destructive = True\<rparr>],
              navigated := navigated w @ [TournamentPage tid]\<rparr>)" for p'
    using assms
    by (simp add: fetchTournamentAndTeams_def db_select_tournament_def Let_def send_def
        toast_def navigate_def)
  have captains_page: "CreateCaptains_fetchData be (Some uid) tid (q', w) =
           (q'\<lparr>cp_loading := False\<rparr>,
            w\<lparr>sent := sent w @ [SelectTournament tid],
              toasts := toasts w @
                [\<lparr>title = js ''Access Denied'',
                  description = js ''Only the organizer can manage captains.'',
                  destructive = True\<rparr>],
              navigated := navigated w @ [TournamentPage tid]\<rparr>)" for q'
    using assms
    by (simp add: CreateCaptains_fetchData_def db_select_tournament_def Let_def send_def
        toast_def navigate_def)
  show ?thesis
    by (simp add: teams_page captains_page CreateTeams_initial_def CreateCaptains_initial_def)
qed

theorem non_organizer_access_denied_witness:
  "refuse sample_backend (SelectTournament 1) = None
   \<and> filter (\<lambda>t. t_id t = 1) (tournaments sample_world) = [sample_tournament]
   \<and> organizer_id sample_tournament \<noteq> 8
   \<and> navigated (snd (fetchTournamentAndTeams sample_backend (Some 8) 1
        (CreateTeams_initial, sample_world))) = [TournamentPage 1]
   \<and> ct_tournament (fst (fetchTournamentAndTeams sample_backend (Some 8) 1
        (CreateTeams_initial, sample_world))) = None
   \<and> navigated (snd (CreateCaptains_fetchData sample_backend (Some 8) 1
        (CreateCaptains_initial, sample_world))) = [TournamentPage 1]
   \<and> cp_tournament (fst (CreateCaptains_fetchData sample_backend (Some 8) 1
        (CreateCaptains_initial, sample_world))) = None"
proof -
  have a: "refuse sample_backend (SelectTournament 1) = None"
    by (simp add: sample_backend_def)
  have b: "filter (\<lambda>t. t_id t = 1) (tournaments sample_world) = [sample_tournament]"
    by (simp add: sample_world_def sample_tournament_def)
  have c: "organizer_id sample_tournament \<noteq> 8"
    by (simp add: sample_tournament_def)
  note denied = non_organizer_access_denied[OF a b c, of CreateTeams_initial CreateCaptains_initial]
  have teams_page: "fetchTournamentAndTeams sample_backend (Some 8) 1
        (CreateTeams_initial, sample_world) =
      (CreateTeams_initial\<lparr>ct_loading := False\<rparr>,
       sample_world\<lparr>sent := sent sample_world @ [SelectTournament 1],
         toasts := toasts sample_world @
           [\<lparr>title = js ''Access Denied'',
             description = js ''Only the organizer can manage teams.'',
             destructive = True\<rparr>],
         navigated := navigated sample_world @ [TournamentPage 1]\<rparr>)"
    using denied by (rule conjunct1)
  have captains_page: "CreateCaptains_fetchData sample_backend (Some 8) 1
        (CreateCaptains_initial, sample_world) =
      (CreateCaptains_initial\<lparr>cp_loading := False\<rparr>,
       sample_world\<lparr>sent := sent sample_world @ [SelectTournament 1],
         toasts := toasts sample_world @
           [\<lparr>title = js ''Access Denied'',
             description = js ''Only the organizer can manage captains.'',
             destructive = True\<rparr>],
         navigated := navigated sample_world @ [TournamentPage 1]\<rparr>)"
    using denied by blast
  show ?thesis
    unfolding teams_page captains_page
    using a b c by (simp add: sample_world_def CreateTeams_initial_def CreateCaptains_initial_def)
qed

section \<open>The creation form and the completion banner\<close>

lemma Number_toString_8: "Number_toString 8 = js ''8''"
  by (simp add: Number_toString_def decimal_digits.simps js_def)

text \<open>
  C9. On the loaded page of a tournament, while the number of teams is below
  \<open>number_of_teams\<close> the creation form is shown and there is no banner; once the number
  reaches \<open>number_of_teams\<close> the form is not shown and the banner reads
  "All \<open>number_of_teams\<close> teams have been created!", for 8 teams
  "All 8 teams have been created!".
\<close>

theorem creation_form_or_banner:
  assumes "\<not> ct_loading p" and "ct_tournament p = Some t"
  shows "(int (length (ct_teams p)) < number_of_teams t \<longrightarrow>
            CreateTeams_render p = TeamsPage \<lparr>create_form = True, completion_banner = None\<rparr>)
       \<and> (number_of_teams t \<le> int (length (ct_teams p)) \<longrightarrow>
            CreateTeams_render p =
              TeamsPage \<lparr>create_form = False,
                completion_banner =
                  Some (js ''All '' @ Number_toString (number_of_teams t)
                        @ js '' teams have been created!'')\<rparr>)
       \<and> (number_of_teams t = 8 \<longrightarrow>
            js ''All '' @ Number_toString (number_of_teams t) @ js '' teams have been created!''
              = js ''All 8 teams have been created!'')"
proof -
  have "js ''All '' @ js ''8'' @ js '' teams have been created!''
          = js ''All 8 teams have been created!''"
    by (simp add: js_def)
  then show ?thesis
    using assms by (simp add: CreateTeams_render_def canCreateMore_def Number_toString_8)
qed

theorem creation_form_or_banner_witness:
  "\<not> ct_loading (CreateTeams_initial\<lparr>ct_loading := False,
        ct_tournament := Some sample_tournament, ct_teams := map sample_team [1, 2, 3, 4, 5, 6, 7, 8]\<rparr>)
   \<and> number_of_teams sample_tournament = 8
   \<and> CreateTeams_render (CreateTeams_initial\<lparr>ct_loading := False,
        ct_tournament := Some sample_tournament, ct_teams := map sample_team [1, 2, 3, 4, 5, 6, 7, 8]\<rparr>) =
       TeamsPage \<lparr>create_form = False,
         completion_banner = Some (js ''All 8 teams have been created!'')\<rparr>
   \<and> CreateTeams_render (CreateTeams_initial\<lparr>ct_loading := False,
        ct_tournament := Some sample_tournament\<rparr>) =
       TeamsPage \<lparr>create_form = True, completion_banner = None\<rparr>"
proof -
  let ?full = "CreateTeams_initial\<lparr>ct_loading := False,
        ct_tournament := Some sample_tournament, ct_teams := map sample_team [1, 2, 3, 4, 5, 6, 7, 8]\<rparr>"
  let ?none = "CreateTeams_initial\<lparr>ct_loading := False, ct_tournament := Some sample_tournament\<rparr>"
  have n: "number_of_teams sample_tournament = 8"
    by (simp add: sample_tournament_def)
  have "CreateTeams_render ?full =
       TeamsPage \<lparr>create_form = False,
         completion_banner = Some (js ''All 8 teams have been created!'')\<rparr>"
    using creation_form_or_banner[of ?full sample_tournament] n by simp
  moreover have "CreateTeams_render ?none =
       TeamsPage \<lparr>create_form = True, completion_banner = None\<rparr>"
    using creation_form_or_banner[of ?none sample_tournament] n
    by (simp add: CreateTeams_initial_def)
  ultimately show ?thesis
    using n by simp
qed


section \<open>Creating teams\<close>

lemmas number_defs =
  parse_defs binary64_def round_half_even_def pow2_def bit_length.simps

lemma parseFloat_examples:
  "parseFloat (js ''5000'') = Finite 5000"
  "parseFloat (js ''abc'') = NaN"
  "parseFloat (js ''0'') = Finite 0"
  "parseFloat (js ''-5'') = Finite (- 5)"
  "parseFloat (js ''2.5e3'') = Finite 2500"
  "parseFloat (js ''.5'') = Finite (1 / 2)"
  "parseFloat (js '' 12px'') = Finite 12"
  "parseFloat (js ''Infinity'') = PosInfinity"
  by (simp_all add: number_defs)

lemma parseFloat_rounds:
  "parseFloat (js ''0.1'') = Finite (3602879701896397 / 2 ^ 55)"
  "parseFloat (js ''1e400'') = PosInfinity"
  "parseFloat (js ''1e-400'') = Finite 0"
  "parseFloat (js ''9007199254740993'') = Finite 9007199254740992"
  by (simp_all add: number_defs)


lemma binary64_not_NaN: "binary64 a b \<noteq> NaN"
  by (simp add: binary64_def Let_def)

lemma negate_not_NaN: "v \<noteq> NaN \<Longrightarrow> negate v \<noteq> NaN"
  by (cases v) simp_all

lemma parseFloat_empty: "parseFloat [] = NaN"
  by (simp add: parse_defs)

text \<open>What a number field reports, when not empty, is read by \<open>parseFloat\<close> as a number.\<close>

lemma valid_number_parses:
  assumes valid: "valid_floating_point_number s"
  shows "parseFloat s \<noteq> NaN"
proof -
  define s1 where "s1 = (if s \<noteq> [] \<and> hd s = 45 then tl s else s)"
  define ip where "ip = takeWhile is_decimal_digit s1"
  define r1 where "r1 = dropWhile is_decimal_digit s1"
  define dot where "dot \<longleftrightarrow> r1 \<noteq> [] \<and> hd r1 = 46"
  define fp where "fp = (if dot then takeWhile is_decimal_digit (tl r1) else [])"
  have parts: "if dot then fp \<noteq> [] else ip \<noteq> []"
    unfolding fp_def dot_def r1_def ip_def s1_def
    using valid[unfolded valid_floating_point_number_def Let_def] by (rule conjunct1)
  have some: "ip \<noteq> [] \<or> fp \<noteq> []"
    using parts by (cases dot) simp_all
  have first: "s1 \<noteq> [] \<and> (is_decimal_digit (hd s1) \<or> hd s1 = 46)"
  proof (cases s1)
    case Nil
    with parts show ?thesis
      by (simp add: ip_def r1_def dot_def)
  next
    case (Cons c cs)
    show ?thesis
    proof (cases "is_decimal_digit c")
      case True
      with Cons show ?thesis by simp
    next
      case False
      with Cons have "ip = []" and "r1 = s1"
        by (simp_all add: ip_def r1_def)
      with parts Cons show ?thesis
        by (simp add: dot_def split: if_splits)
    qed
  qed
  then have nonempty: "s \<noteq> []"
    by (auto simp: s1_def)
  have lead: "hd s = 45 \<or> is_decimal_digit (hd s) \<or> hd s = 46"
    using first nonempty by (auto simp: s1_def split: if_splits)
  then have "\<not> StrWhiteSpaceChar (hd s)" and plus: "hd s \<noteq> 43"
    by (auto simp: StrWhiteSpaceChar_def is_decimal_digit_def)
  with nonempty have skip: "dropWhile StrWhiteSpaceChar s = s"
    by (cases s) simp_all
  have strip: "(if s \<noteq> [] \<and> (hd s = 43 \<or> hd s = 45) then tl s else s) = s1"
    using plus by (simp add: s1_def)
  have "hd s1 \<noteq> 73"
    using first by (auto simp: is_decimal_digit_def)
  with first have word: "take 8 s1 \<noteq> js ''Infinity''"
    by (cases s1) (auto simp: js_def)
  have digits: "\<not> (takeWhile is_decimal_digit s1 = [] \<and>
      (if dropWhile is_decimal_digit s1 \<noteq> [] \<and> hd (dropWhile is_decimal_digit s1) = 46
       then takeWhile is_decimal_digit (tl (dropWhile is_decimal_digit s1)) else []) = [])"
    using some unfolding fp_def dot_def r1_def ip_def by blast
  show ?thesis
    unfolding parseFloat_def Let_def skip strip if_not_P[OF word] if_not_P[OF digits]
    by (simp add: binary64_not_NaN negate_not_NaN)
qed

lemma decimal_digits_are_digits:
  "decimal_digits n \<noteq> [] \<and> list_all is_decimal_digit (decimal_digits n)"
proof (induction n rule: decimal_digits.induct)
  case (1 n)
  show ?case
  proof (cases "n < 10")
    case True
    then show ?thesis
      by (subst (1 2) decimal_digits.simps) (simp add: is_decimal_digit_def)
  next
    case False
    have "n mod 10 < 10" by simp
    then have "is_decimal_digit (48 + n mod 10)"
      unfolding is_decimal_digit_def by linarith
    with False "1.IH" show ?thesis
      by (subst (1 2) decimal_digits.simps) simp
  qed
qed

lemma Number_toString_valid: "valid_floating_point_number (Number_toString i)"
proof -
  define n where "n = (if i < 0 then nat (- i) else nat i)"
  have digits: "decimal_digits n \<noteq> []" "list_all is_decimal_digit (decimal_digits n)"
    using decimal_digits_are_digits[of n] by simp_all
  then have all: "takeWhile is_decimal_digit (decimal_digits n) = decimal_digits n"
    and none: "dropWhile is_decimal_digit (decimal_digits n) = []"
    by (simp_all add: list_all_iff)
  have lead: "hd (decimal_digits n) \<noteq> 45"
    using digits by (cases "decimal_digits n") (auto simp: is_decimal_digit_def)
  have unsigned: "(if Number_toString i \<noteq> [] \<and> hd (Number_toString i) = 45
                   then tl (Number_toString i) else Number_toString i) = decimal_digits n"
    using lead unfolding n_def by (cases "i < 0") (simp_all add: Number_toString_def)
  show ?thesis
    unfolding valid_floating_point_number_def Let_def unsigned all none
    using digits by (simp add: valid_exponent_def)
qed

lemma number_input_value_field: "budget_field_value (number_input_value typed)"
  by (simp add: budget_field_value_def number_input_value_def)

lemma fetch_keeps_budget_field:
  assumes "budget_field_value (teamBudget p)"
  shows "budget_field_value (teamBudget (fst (fetchTournamentAndTeams be user tid (p, w))))"
  using assms
  by (simp add: fetchTournamentAndTeams_def budget_field_value_def Number_toString_valid
      split_beta split: sum.split option.split)

lemma submit_keeps_budget_field:
  assumes "budget_field_value (teamBudget p)"
  shows "budget_field_value (teamBudget (fst (handleCreateTeam be user tid (p, w))))"
proof -
  have "budget_field_value
          (teamBudget (p\<lparr>teamName := [], selectedCaptain := None,
             teamBudget := (case ct_tournament p of
                              Some t \<Rightarrow> Number_toString (team_budget t) | None \<Rightarrow> []),
             creating := False\<rparr>))"
    by (simp add: budget_field_value_def Number_toString_valid split: option.split)
  then show ?thesis
    using assms
    by (simp add: handleCreateTeam_def fetch_keeps_budget_field split_beta split: option.split)
qed

text \<open>In every state of the page the budget text is empty or a valid number.\<close>

lemma state_budget_field: "CreateTeams_state p \<Longrightarrow> budget_field_value (teamBudget p)"
proof (induction rule: CreateTeams_state.induct)
  case mounted
  show ?case by (simp add: budget_field_value_def CreateTeams_initial_def)
next
  case (fetched p be user tid w)
  then show ?case by (simp add: fetch_keeps_budget_field)
next
  case (name_typed p typed)
  then show ?case by (simp add: setTeamName_def)
next
  case (budget_typed p typed)
  show ?case by (simp add: setTeamBudget_def number_input_value_field)
next
  case (captain_selected p pl)
  then show ?case by (simp add: handleSelectCaptain_def)
next
  case (submitted p be user tid w)
  then show ?case by (simp add: submit_keeps_budget_field)
qed

lemma handleCreateTeam_rejected:
  assumes "trim (teamName p) = [] \<or> teamBudget p = [] \<or> le_zero (parseFloat (teamBudget p))"
  shows "(\<exists>d. handleCreateTeam be user tid (p, w) =
             (p, w\<lparr>toasts := toasts w @
                     [\<lparr>title = js ''Validation Error'', description = d, destructive = True\<rparr>]\<rparr>))
      \<and> sent (snd (handleCreateTeam be user tid (p, w))) = sent w
      \<and> teams (snd (handleCreateTeam be user tid (p, w))) = teams w"
  using assms by (auto simp: handleCreateTeam_def toast_def)

text \<open>
  C7. For every submission of the team form (in any state of the page): when the trimmed
  team name is empty or the budget is not a number greater than zero, the submission is
  rejected with a "Validation Error" notification, no request is sent and \<open>teams\<close> is as
  before; so a request is sent, and a row inserted, only if the trimmed name is not
  empty and the budget is a number greater than zero.
\<close>

theorem team_creation_validated:
  assumes state: "CreateTeams_state p"
  shows "(trim (teamName p) = [] \<or> \<not> strictly_positive (parseFloat (teamBudget p)) \<longrightarrow>
            (\<exists>d. handleCreateTeam be user tid (p, w) =
               (p, w\<lparr>toasts := toasts w @
                       [\<lparr>title = js ''Validation Error'', description = d, destructive = True\<rparr>]\<rparr>))
            \<and> sent (snd (handleCreateTeam be user tid (p, w))) = sent w
            \<and> teams (snd (handleCreateTeam be user tid (p, w))) = teams w)
       \<and> (sent (snd (handleCreateTeam be user tid (p, w))) \<noteq> sent w
            \<or> teams (snd (handleCreateTeam be user tid (p, w))) \<noteq> teams w
          \<longrightarrow> trim (teamName p) \<noteq> [] \<and> strictly_positive (parseFloat (teamBudget p)))"
proof (rule conjI; rule impI)
  have numeric: "teamBudget p = [] \<or> parseFloat (teamBudget p) \<noteq> NaN"
    using state_budget_field[OF state] valid_number_parses
    unfolding budget_field_value_def by blast
  {
    assume "trim (teamName p) = [] \<or> \<not> strictly_positive (parseFloat (teamBudget p))"
    with numeric
    have c: "trim (teamName p) = [] \<or> teamBudget p = [] \<or> le_zero (parseFloat (teamBudget p))"
      unfolding strictly_positive_def by fast
    show "(\<exists>d. handleCreateTeam be user tid (p, w) =
               (p, w\<lparr>toasts := toasts w @
                       [\<lparr>title = js ''Validation Error'', description = d, destructive = True\<rparr>]\<rparr>))
            \<and> sent (snd (handleCreateTeam be user tid (p, w))) = sent w
            \<and> teams (snd (handleCreateTeam be user tid (p, w))) = teams w"
      by (rule handleCreateTeam_rejected[OF c])
  }
  {
    assume changed: "sent (snd (handleCreateTeam be user tid (p, w))) \<noteq> sent w
            \<or> teams (snd (handleCreateTeam be user tid (p, w))) \<noteq> teams w"
    show "trim (teamName p) \<noteq> [] \<and> strictly_positive (parseFloat (teamBudget p))"
    proof (rule ccontr)
      assume "\<not> (trim (teamName p) \<noteq> [] \<and> strictly_positive (parseFloat (teamBudget p)))"
      with numeric
      have c: "trim (teamName p) = [] \<or> teamBudget p = [] \<or> le_zero (parseFloat (teamBudget p))"
        unfolding strictly_positive_def by fast
      from handleCreateTeam_rejected[OF c]
      have "sent (snd (handleCreateTeam be user tid (p, w))) = sent w"
        and "teams (snd (handleCreateTeam be user tid (p, w))) = teams w"
        by (rule conjunct2[THEN conjunct1], rule conjunct2[THEN conjunct2])
      with changed show False by simp
    qed
  }
qed


lemma number_input_value_examples:
  "number_input_value (js ''0'') = js ''0''"
  "number_input_value (js ''5000'') = js ''5000''"
  "number_input_value (js ''abc'') = []"
  "number_input_value (js ''1e'') = []"
  by (simp_all add: number_input_value_def valid_floating_point_number_def valid_exponent_def
      is_decimal_digit_def js_def)

theorem team_creation_validated_witness:
  "CreateTeams_state
     (setTeamBudget (number_input_value (js ''0'')) (setTeamName (js ''Lions'') CreateTeams_initial))
   \<and> \<not> strictly_positive (parseFloat (teamBudget
        (setTeamBudget (number_input_value (js ''0''))
           (setTeamName (js ''Lions'') CreateTeams_initial))))
   \<and> sent (snd (handleCreateTeam sample_backend (Some 7) 1
        (setTeamBudget (number_input_value (js ''0''))
           (setTeamName (js ''Lions'') CreateTeams_initial),
         sample_world))) = []
   \<and> teams (snd (handleCreateTeam sample_backend (Some 7) 1
        (setTeamBudget (number_input_value (js ''0''))
           (setTeamName (js ''Lions'') CreateTeams_initial),
         sample_world))) = []"
proof -
  let ?p = "setTeamBudget (number_input_value (js ''0''))
              (setTeamName (js ''Lions'') CreateTeams_initial)"
  have state: "CreateTeams_state ?p"
    by (intro CreateTeams_state.budget_typed CreateTeams_state.name_typed
        CreateTeams_state.mounted)
  have budget: "teamBudget ?p = js ''0''"
    by (simp add: setTeamBudget_def number_input_value_examples)
  have zero: "\<not> strictly_positive (parseFloat (teamBudget ?p))"
    unfolding budget by (simp add: parseFloat_examples strictly_positive_def)
  then have invalid: "trim (teamName ?p) = [] \<or> \<not> strictly_positive (parseFloat (teamBudget ?p))"
    by (rule disjI2)
  have empty: "sent sample_world = []" "teams sample_world = []"
    by (simp_all add: sample_world_def)
  note claim = team_creation_validated[OF state, of sample_backend "Some 7" 1 sample_world]
  from claim[THEN conjunct1, THEN mp, OF invalid]
  have "sent (snd (handleCreateTeam sample_backend (Some 7) 1 (?p, sample_world))) = []"
    and "teams (snd (handleCreateTeam sample_backend (Some 7) 1 (?p, sample_world))) = []"
    unfolding empty by (rule conjunct2[THEN conjunct1], rule conjunct2[THEN conjunct2])
  with state zero show ?thesis
    by (intro conjI)
qed

lemma team_created_example:
  "teams (snd (handleCreateTeam sample_backend (Some 7) 1
      (CreateTeams_initial\<lparr>teamName := js '' Lions '', teamBudget := js ''5000''\<rparr>,
       sample_world))) =
     [\<lparr>tm_id = 100, tm_tournament_id = 1, tm_name = js ''Lions'', logo_url = None,
       captain_id = None, budget_remaining = Some 5000, owner_id = Some 7,
       tm_created_at = 50\<rparr>]
   \<and> CreateTeams_render (fst (handleCreateTeam sample_backend (Some 7) 1
      (CreateTeams_initial\<lparr>teamName := js '' Lions '', teamBudget := js ''5000''\<rparr>,
       sample_world))) =
     TeamsPage \<lparr>create_form = True, completion_banner = None\<rparr>"
proof -
  have name: "trim (js '' Lions '') = js ''Lions''" "js ''Lions'' \<noteq> []" "js ''5000'' \<noteq> []"
    by (simp_all add: parse_defs)
  show ?thesis
    unfolding handleCreateTeam_def fetchTournamentAndTeams_def db_insert_team_def
      db_select_tournament_def db_select_teams_def sample_backend_def sample_world_def
      CreateTeams_initial_def send_def toast_def CreateTeams_render_def canCreateMore_def
    by (simp add: name parseFloat_examples sample_tournament_def Let_def)
qed

text \<open>
  A budget text with no number in front is not one the page can hold. On such a text the
  handler alone would not reject: \<open>parseFloat\<close> gives \<open>NaN\<close>, \<open>NaN <= 0\<close> is false, and the
  request goes out with a \<open>null\<close> budget.
\<close>

lemma non_numeric_budget_text:
  "\<not> CreateTeams_state
       (CreateTeams_initial\<lparr>teamName := js ''Lions'', teamBudget := js ''abc''\<rparr>)"
  "hd (sent (snd (handleCreateTeam sample_backend (Some 7) 1
        (CreateTeams_initial\<lparr>teamName := js ''Lions'', teamBudget := js ''abc''\<rparr>,
         sample_world)))) =
     InsertTeam 1 (js ''Lions'') None None (Some 7)"
proof -
  have "\<not> budget_field_value (js ''abc'')"
    by (simp add: budget_field_value_def valid_floating_point_number_def valid_exponent_def
        is_decimal_digit_def js_def)
  then show "\<not> CreateTeams_state
       (CreateTeams_initial\<lparr>teamName := js ''Lions'', teamBudget := js ''abc''\<rparr>)"
    using state_budget_field by fastforce
  have name: "trim (js ''Lions'') = js ''Lions''" "js ''Lions'' \<noteq> []" "js ''abc'' \<noteq> []"
    by (simp_all add: parse_defs)
  show "hd (sent (snd (handleCreateTeam sample_backend (Some 7) 1
        (CreateTeams_initial\<lparr>teamName := js ''Lions'', teamBudget := js ''abc''\<rparr>,
         sample_world)))) =
     InsertTeam 1 (js ''Lions'') None None (Some 7)"
    unfolding handleCreateTeam_def fetchTournamentAndTeams_def db_insert_team_def
      db_select_tournament_def db_select_teams_def sample_backend_def sample_world_def
      CreateTeams_initial_def send_def toast_def
    by (simp add: name parseFloat_examples sample_tournament_def Let_def)
qed

end
